theory Spec2Isabelle
  imports Complex_Main
begin

section \<open>Python values, strings and dictionaries\<close>

text \<open>
  The job object of \<^verbatim>\<open>condor.py\<close> stores strings, integers and booleans in its settings
  dictionary and tests arguments with \<^verbatim>\<open>type(x) != bool\<close>, \<^verbatim>\<open>x in list\<close> and truthiness,
  so the values that reach it are modelled by their dynamic type. Strings are lists of
  8-bit characters: the replies of external commands are built by \<^verbatim>\<open>Process.get\<close> from
  bytes with \<^verbatim>\<open>chr\<close>, so every character of a reply has a code below 256.
\<close>

datatype pyval = PyNone | PyBool bool | PyInt int | PyStr string

datatype error =
    InvalidUniverseError pyval
  | BadFormatError string
  | SubmissionError string
  | RequiredSetting string
  | EmptySetting string
  | BadQuotes string
  | TypeError
  | NameError string
  | ValueError
  | IndexError
  | UnpicklingError

datatype event = Stdout string | Stderr string | Sleep rat

definition dquote :: char where
  "dquote = CHR 0x22"

definition squote :: char where
  "squote = CHR 0x27"

definition backslash :: char where
  "backslash = CHR 0x5C"

definition newline :: char where
  "newline = CHR 0x0A"

definition digit_char :: "nat \<Rightarrow> char" where
  "digit_char d = ''0123456789'' ! d"

fun str_nat :: "nat \<Rightarrow> string" where
  "str_nat n = (if n < 10 then [digit_char n] else str_nat (n div 10) @ [digit_char (n mod 10)])"

declare str_nat.simps [simp del]

definition str_int :: "int \<Rightarrow> string" where
  "str_int i = (if i < 0 then CHR ''-'' # str_nat (nat (- i)) else str_nat (nat i))"

text \<open>\<^verbatim>\<open>str(v)\<close> for the values a setting can hold.\<close>

fun py_str :: "pyval \<Rightarrow> string" where
  "py_str PyNone = ''None''"
| "py_str (PyBool b) = (if b then ''True'' else ''False'')"
| "py_str (PyInt i) = str_int i"
| "py_str (PyStr s) = s"

text \<open>Truthiness, as \<^verbatim>\<open>if x:\<close> tests it.\<close>

fun truthy :: "pyval \<Rightarrow> bool" where
  "truthy PyNone = False"
| "truthy (PyBool b) = b"
| "truthy (PyInt i) = (i \<noteq> 0)"
| "truthy (PyStr s) = (s \<noteq> [])"

text \<open>
  \<^verbatim>\<open>str.isspace\<close> on the characters below 256: tab to carriage return, the four
  separators 0x1C to 0x1F, the space, NEL (0x85) and the no-break space (0xA0).
\<close>

definition is_space :: "char \<Rightarrow> bool" where
  "is_space c = (let n = (of_char c :: nat) in
     (9 \<le> n \<and> n \<le> 13) \<or> (28 \<le> n \<and> n \<le> 32) \<or> n = 133 \<or> n = 160)"

definition strip :: "string \<Rightarrow> string" where
  "strip s = rev (dropWhile is_space (rev (dropWhile is_space s)))"

text \<open>The decimal digits \<^verbatim>\<open>\d\<close> matches among the characters below 256.\<close>

definition is_digit :: "char \<Rightarrow> bool" where
  "is_digit c = (let n = (of_char c :: nat) in 48 \<le> n \<and> n \<le> 57)"

text \<open>
  \<^verbatim>\<open>str.isdigit\<close>: non-empty, and every character a digit. Below 256 the superscripts
  one, two and three (0xB9, 0xB2, 0xB3) count as digits for \<^verbatim>\<open>isdigit\<close> too.
\<close>

definition isdigit_char :: "char \<Rightarrow> bool" where
  "isdigit_char c = (is_digit c \<or> (of_char c :: nat) = 178 \<or> (of_char c :: nat) = 179
     \<or> (of_char c :: nat) = 185)"

definition isdigit :: "string \<Rightarrow> bool" where
  "isdigit s = (s \<noteq> [] \<and> list_all isdigit_char s)"

definition digit_val :: "char \<Rightarrow> int" where
  "digit_val c = int (of_char c) - 48"

text \<open>
  \<^verbatim>\<open>int(s)\<close> on a string that passed \<^verbatim>\<open>isdigit\<close>: the decimal value when every
  character is a decimal digit, \<^verbatim>\<open>ValueError\<close> otherwise (a superscript digit). The
  module is written for Python 3.1, where \<^verbatim>\<open>int\<close> reads a run of digits of any length.
\<close>

definition py_int :: "string \<Rightarrow> error + int" where
  "py_int s = (if s \<noteq> [] \<and> list_all is_digit s
     then Inr (foldl (\<lambda>acc c. 10 * acc + digit_val c) 0 s) else Inl ValueError)"

fun is_prefix :: "string \<Rightarrow> string \<Rightarrow> bool" where
  "is_prefix [] s = True"
| "is_prefix (p # ps) [] = False"
| "is_prefix (p # ps) (c # cs) = (p = c \<and> is_prefix ps cs)"

text \<open>\<^verbatim>\<open>sub in s\<close> on strings.\<close>

fun contains :: "string \<Rightarrow> string \<Rightarrow> bool" where
  "contains sub [] = (sub = [])"
| "contains sub (c # cs) = (is_prefix sub (c # cs) \<or> contains sub cs)"

text \<open>
  \<^verbatim>\<open>s.count(sub)\<close>: matches are taken from left to right and do not overlap; the
  empty string is found between all characters.
\<close>

function py_count :: "string \<Rightarrow> string \<Rightarrow> nat" where
  "py_count sub s =
     (if sub = [] then Suc (length s)
      else if s = [] then 0
      else if is_prefix sub s then Suc (py_count sub (drop (length sub) s))
      else py_count sub (tl s))"
  by pat_completeness auto
termination
  by (relation "measure (\<lambda>(sub, s). length s)") auto

declare py_count.simps [simp del]

text \<open>
  \<^verbatim>\<open>s.replace(old, new)\<close>: every match of \<^verbatim>\<open>old\<close>, from left to right and without
  overlap; an empty \<^verbatim>\<open>old\<close> matches before every character and at the end.
\<close>

function replace :: "string \<Rightarrow> string \<Rightarrow> string \<Rightarrow> string" where
  "replace old new s =
     (if old = [] then new @ concat (map (\<lambda>c. c # new) s)
      else if s = [] then []
      else if is_prefix old s then new @ replace old new (drop (length old) s)
      else hd s # replace old new (tl s))"
  by pat_completeness auto
termination
  by (relation "measure (\<lambda>(old, new, s). length s)") auto

declare replace.simps [simp del]

text \<open>\<^verbatim>\<open>s.split(" ")\<close>: the fields between single spaces, empty fields kept.\<close>

fun split_space :: "string \<Rightarrow> string list" where
  "split_space [] = [[]]"
| "split_space (c # cs) =
     (if c = CHR '' '' then [] # split_space cs
      else (case split_space cs of [] \<Rightarrow> [[c]] | f # fs \<Rightarrow> (c # f) # fs))"

text \<open>\<^verbatim>\<open>" ".join(xs)\<close>.\<close>

fun join_space :: "string list \<Rightarrow> string" where
  "join_space [] = []"
| "join_space [x] = x"
| "join_space (x # y # ys) = x @ CHR '' '' # join_space (y # ys)"

definition endswith :: "string \<Rightarrow> string \<Rightarrow> bool" where
  "endswith s suf = is_prefix (rev suf) (rev s)"

text \<open>
  \<^verbatim>\<open>re.search("(cluster )(\d+)", msg)\<close>, giving group 2: the leftmost place where
  \<^verbatim>\<open>cluster \<close> is followed by a digit, and the longest run of digits there.
\<close>

fun re_search_cluster :: "string \<Rightarrow> string option" where
  "re_search_cluster [] = None"
| "re_search_cluster (c # cs) =
     (if is_prefix ''cluster '' (c # cs) \<and> takeWhile is_digit (drop 8 (c # cs)) \<noteq> []
      then Some (takeWhile is_digit (drop 8 (c # cs)))
      else re_search_cluster cs)"

text \<open>
  A dictionary in insertion order: \<^verbatim>\<open>d[k] = v\<close> keeps the place of a key that is
  already there and appends a new one; \<^verbatim>\<open>d[k]\<close> is \<^verbatim>\<open>map_of\<close>.
\<close>

type_synonym settings = "(string \<times> pyval) list"

fun dict_set :: "string \<Rightarrow> pyval \<Rightarrow> settings \<Rightarrow> settings" where
  "dict_set k v [] = [(k, v)]"
| "dict_set k v ((k', v') # d) = (if k = k' then (k, v) # d else (k', v') # dict_set k v d)"

definition dict_pop :: "string \<Rightarrow> settings \<Rightarrow> settings" where
  "dict_pop k d = filter (\<lambda>kv. fst kv \<noteq> k) d"

section \<open>The job object\<close>

text \<open>
  The attributes of \<^verbatim>\<open>Job\<close> that its methods read and write. The list of valid
  universes is assigned once in \<^verbatim>\<open>__init__\<close> and never again, so it is a constant. The
  shell the job submits through (\<^verbatim>\<open>_submitShell\<close>) runs external commands; it is the
  parameter \<open>sh\<close> of the methods below: \<open>sh w command input\<close> is the exit code and the
  output of \<^verbatim>\<open>execute(command, input)\<close> in the state \<open>w\<close> of the outside world, with the
  state the command leaves behind.
\<close>

record job =
  settings :: settings
  submitLinesSoFar :: string
  executablePath :: string
  cluster :: "int option"
  maxPollTime :: rat
  username :: pyval
  server :: string
  submitterUsername :: pyval

type_synonym 'w shell = "'w \<Rightarrow> string \<Rightarrow> string option \<Rightarrow> (int \<times> string) \<times> 'w"

definition validUniverses :: "pyval list" where
  "validUniverses = [PyStr ''vanilla'', PyStr ''standard'', PyStr ''java'',
     PyStr ''scheduler'', PyStr ''local'', PyStr ''grid'', PyStr ''vm'']"

text \<open>A getter: \<^verbatim>\<open>self._settings[key]\<close>, a \<^verbatim>\<open>KeyError\<close> turned into the getter's error.\<close>

definition get_setting :: "string \<Rightarrow> error \<Rightarrow> job \<Rightarrow> error + pyval" where
  "get_setting key err j = (case map_of (settings j) key of None \<Rightarrow> Inl err | Some v \<Rightarrow> Inr v)"

definition put_setting :: "string \<Rightarrow> pyval \<Rightarrow> job \<Rightarrow> job" where
  "put_setting key v j = j\<lparr>settings := dict_set key v (settings j)\<rparr>"

definition getUniverse :: "job \<Rightarrow> error + pyval" where
  "getUniverse j = get_setting ''Universe'' (RequiredSetting ''Universe'') j"

definition setUniverse :: "pyval \<Rightarrow> job \<Rightarrow> (error + unit) \<times> job" where
  "setUniverse string j =
     (if string \<notin> set validUniverses then (Inl (InvalidUniverseError string), j)
      else (Inr (), put_setting ''Universe'' string j))"

definition getUsername :: "job \<Rightarrow> pyval" where
  "getUsername j = username j"

definition setUsername :: "pyval \<Rightarrow> job \<Rightarrow> job" where
  "setUsername string j =
     (if string = PyNone then j\<lparr>username := submitterUsername j\<rparr> else j\<lparr>username := string\<rparr>)"

definition getServer :: "job \<Rightarrow> string" where
  "getServer j = server j"

definition setServer :: "string \<Rightarrow> job \<Rightarrow> job" where
  "setServer string j = j\<lparr>server := string\<rparr>"

definition getExecutable :: "job \<Rightarrow> error + pyval" where
  "getExecutable j = get_setting ''Executable'' (RequiredSetting ''Executable'') j"

definition getTransferExecutable :: "job \<Rightarrow> error + pyval" where
  "getTransferExecutable j = get_setting ''Input'' (EmptySetting ''TransferExecutable'') j"

definition setTransferExecutable :: "pyval \<Rightarrow> job \<Rightarrow> (error + unit) \<times> job" where
  "setTransferExecutable boolean j =
     (case boolean of
        PyBool b \<Rightarrow> (Inr (), put_setting ''transfer_executable'' (PyBool b) j)
      | _ \<Rightarrow> (Inl TypeError, j))"

definition resolveExecutable ::
  "'w shell \<Rightarrow> string \<Rightarrow> job \<Rightarrow> 'w \<Rightarrow> (error + string) \<times> 'w \<times> event list" where
  "resolveExecutable sh string j w =
     (let (r1, w1) = sh w (''ls '' @ string) None in
      if fst r1 \<noteq> 0 then
        (let (r2, w2) = sh w1 (''which '' @ string) None in
         if fst r2 = 0 then (Inr (strip (snd r2)), w2, [])
         else (case getExecutable j of
                 Inl e \<Rightarrow> (Inl e, w2, [])
               | Inr v \<Rightarrow> (Inr string, w2,
                   [Stderr (''Warning: Could not find Executable: '' @ py_str v)])))
      else (Inr string, w1, []))"

definition setExecutable ::
  "'w shell \<Rightarrow> string \<Rightarrow> job \<Rightarrow> 'w \<Rightarrow> (error + unit) \<times> job \<times> 'w \<times> event list" where
  "setExecutable sh string j w =
     (case resolveExecutable sh string j w of
        (Inl e, w1, ev) \<Rightarrow> (Inl e, j, w1, ev)
      | (Inr newPath, w1, ev) \<Rightarrow>
          (let j1 = (if contains ''/'' (replace [backslash, CHR ''/''] [] newPath)
                     then snd (setTransferExecutable (PyBool False) j) else j) in
           if executablePath j1 = [] then
             (Inr (), (put_setting ''Executable'' (PyStr newPath) j1)\<lparr>executablePath := newPath\<rparr>,
              w1, ev)
           else if map_of (settings j1) ''Executable'' \<noteq> None
                   \<and> map_of (settings j1) ''Executable'' \<noteq> Some (PyStr newPath) then
             (Inr (), put_setting ''Executable'' (PyStr newPath) j1, w1,
              ev @ [Stderr ''Warning: Generally speaking, only one executable should be used per submission.''])
           else (Inr (), j1, w1, ev)))"

definition getArguments :: "job \<Rightarrow> error + pyval" where
  "getArguments j = get_setting ''Arguments'' (RequiredSetting ''Arguments'') j"

definition setArguments :: "string \<Rightarrow> job \<Rightarrow> job" where
  "setArguments string j = put_setting ''Arguments'' (PyStr (dquote # string @ [dquote])) j"

definition getInitialDirectory :: "job \<Rightarrow> error + pyval" where
  "getInitialDirectory j = get_setting ''initialdir'' (EmptySetting ''InitialDirectory'') j"

definition setInitialDirectory :: "pyval \<Rightarrow> job \<Rightarrow> job" where
  "setInitialDirectory string j = put_setting ''initialdir'' string j"

definition getInput :: "job \<Rightarrow> error + pyval" where
  "getInput j = get_setting ''Input'' (EmptySetting ''Input'') j"

definition setInput :: "pyval \<Rightarrow> job \<Rightarrow> job" where
  "setInput string j = put_setting ''Input'' string j"

definition getOutput :: "job \<Rightarrow> error + pyval" where
  "getOutput j = get_setting ''Output'' (EmptySetting ''Output'') j"

definition setOutput :: "pyval \<Rightarrow> job \<Rightarrow> job" where
  "setOutput string j = put_setting ''Output'' string j"

definition getError :: "job \<Rightarrow> error + pyval" where
  "getError j = get_setting ''Error'' (EmptySetting ''Error'') j"

definition setError :: "pyval \<Rightarrow> job \<Rightarrow> job" where
  "setError string j = put_setting ''Error'' string j"

definition getLog :: "job \<Rightarrow> error + pyval" where
  "getLog j = get_setting ''Log'' (EmptySetting ''Log'') j"

definition setLog :: "pyval \<Rightarrow> job \<Rightarrow> job" where
  "setLog string j = put_setting ''Log'' string j"

definition getRequirements :: "job \<Rightarrow> error + pyval" where
  "getRequirements j = get_setting ''Requirements'' (EmptySetting ''Requirements'') j"

definition setRequirements :: "pyval \<Rightarrow> job \<Rightarrow> job" where
  "setRequirements string j = put_setting ''Requirements'' string j"

definition setMatlabLock :: "pyval \<Rightarrow> job \<Rightarrow> job" where
  "setMatlabLock boolean j =
     (if truthy boolean then put_setting ''concurrency_limits'' (PyStr ''MATLAB'') j
      else j\<lparr>settings := dict_pop ''concurrency_limits'' (settings j)\<rparr>)"

definition getCPUNum :: "job \<Rightarrow> error + pyval" where
  "getCPUNum j = get_setting ''request_cpus'' (EmptySetting ''request_cpus'') j"

definition setCPUNum :: "int \<Rightarrow> job \<Rightarrow> job" where
  "setCPUNum integer j = put_setting ''request_cpus'' (PyInt integer) j"

definition getRAM :: "job \<Rightarrow> error + pyval" where
  "getRAM j = get_setting ''request_memory'' (EmptySetting ''request_RAM'') j"

definition setRAM :: "int \<Rightarrow> job \<Rightarrow> job" where
  "setRAM megabytes_int j = put_setting ''request_memory'' (PyInt megabytes_int) j"

definition getDiskSpace :: "job \<Rightarrow> error + pyval" where
  "getDiskSpace j = get_setting ''request_disk'' (EmptySetting ''request_diskSpace'') j"

definition setDiskSpace :: "int \<Rightarrow> job \<Rightarrow> job" where
  "setDiskSpace megabytes_int j = put_setting ''request_disk'' (PyInt megabytes_int) j"

definition getTransferFiles :: "job \<Rightarrow> error + pyval" where
  "getTransferFiles j =
     get_setting ''should_transfer_files'' (EmptySetting ''should_transfer_files'') j"

definition setTransferFiles :: "pyval \<Rightarrow> job \<Rightarrow> job" where
  "setTransferFiles string j = put_setting ''should_transfer_files'' string j"

definition getWhenTransferOutput :: "job \<Rightarrow> error + pyval" where
  "getWhenTransferOutput j =
     get_setting ''when_to_transfer_ouput'' (EmptySetting ''when_to_transfer_output'') j"

definition setWhenTransferOutput :: "pyval \<Rightarrow> job \<Rightarrow> job" where
  "setWhenTransferOutput string j = put_setting ''when_to_transfer_output'' string j"

definition getNotification :: "job \<Rightarrow> error + pyval" where
  "getNotification j = get_setting ''notification'' (EmptySetting ''notification'') j"

definition setNotification :: "pyval \<Rightarrow> job \<Rightarrow> job" where
  "setNotification string j = put_setting ''notification'' string j"

definition getEmail :: "job \<Rightarrow> error + pyval" where
  "getEmail j = get_setting ''notify_user'' (EmptySetting ''Email'') j"

text \<open>
  \<^verbatim>\<open>setEmail\<close> reads the mail map with \<^verbatim>\<open>cat\<close> and decodes it with \<^verbatim>\<open>pickle.load\<close>, a
  function of the standard library: the parameter \<open>unpickle\<close>, which fails or gives the
  dictionary stored in the file (\<^verbatim>\<open>editMailMap.py\<close> stores a dictionary of strings).
\<close>

definition setEmail ::
  "'w shell \<Rightarrow> (string \<Rightarrow> error + (pyval \<Rightarrow> pyval option)) \<Rightarrow> pyval \<Rightarrow> job \<Rightarrow> 'w
     \<Rightarrow> (error + unit) \<times> job \<times> 'w \<times> event list" where
  "setEmail sh unpickle string j w =
     (if truthy string then (Inr (), put_setting ''notify_user'' string j, w, [])
      else
        (let (r, w1) = sh w ''cat /mnt/config/scripts/mail_map.pickle'' None in
         if fst r = 0 then
           (case unpickle (snd r) of
              Inl e \<Rightarrow> (Inl e, j, w1, [])
            | Inr emails \<Rightarrow>
                (case emails (getUsername j) of
                   Some v \<Rightarrow> (Inr (), put_setting ''notify_user'' v j, w1, [])
                 | None \<Rightarrow>
                     (case emails PyNone of
                        Some v \<Rightarrow> (Inr (), put_setting ''notify_user'' v j, w1,
                          [Stderr (''Note: '' @ py_str (getUsername j)
                             @ '' not in email mapping.  Using a default value.'')])
                      | None \<Rightarrow> (Inr (), put_setting ''notify_user'' (PyStr ''kollerg14@mail.wlu.edu'') j,
                          w1,
                          [Stderr (''Note: '' @ py_str (getUsername j)
                             @ '' not in email mapping.  Using a default value.'')]))))
         else (Inr (), j, w1, [])))"

text \<open>
  \<^verbatim>\<open>_generateSubmitString\<close>: the loop over the settings appends
  \<^verbatim>\<open>str(s) + " = " + str(self._settings[s]) + "\n"\<close> to the text for each key \<open>s\<close>, in
  the order of the dictionary; with \<^verbatim>\<open>update\<close> the settings are then cleared and the
  text is kept.
\<close>

fun submit_lines :: "string \<Rightarrow> settings \<Rightarrow> string" where
  "submit_lines allLines [] = allLines"
| "submit_lines allLines ((s, v) # rest) =
     submit_lines (allLines @ s @ '' = '' @ py_str v @ [newline]) rest"

definition generateSubmitString :: "bool \<Rightarrow> job \<Rightarrow> string \<times> job" where
  "generateSubmitString update j =
     (let allLines = submit_lines (submitLinesSoFar j) (settings j) in
      (allLines, if update then j\<lparr>settings := [], submitLinesSoFar := allLines\<rparr> else j))"

text \<open>
  The loop of \<^verbatim>\<open>queue\<close> that joins the executable with the fields after it while it
  ends with a backslash; \<^verbatim>\<open>args.pop(0)\<close> on an empty list is an \<^verbatim>\<open>IndexError\<close>.
\<close>

fun pop_loop :: "string \<Rightarrow> string list \<Rightarrow> error + string \<times> string list" where
  "pop_loop executable [] =
     (if endswith executable [backslash] then Inl IndexError else Inr (executable, []))"
| "pop_loop executable (a # args) =
     (if endswith executable [backslash] then pop_loop (executable @ a) args
      else Inr (executable, a # args))"

definition queue_directive :: "int \<Rightarrow> string" where
  "queue_directive ntimes =
     (if ntimes \<noteq> 1 then ''Queue '' @ str_int ntimes @ [newline] else ''Queue'' @ [newline])"

text \<open>
  \<^verbatim>\<open>queue\<close> splits the command line with \<^verbatim>\<open>shlex.split\<close>, a function of the standard
  library: the parameter \<open>shlex_split\<close>, \<open>None\<close> where it raises \<^verbatim>\<open>ValueError\<close>.
\<close>

definition queue ::
  "'w shell \<Rightarrow> (string \<Rightarrow> string list option) \<Rightarrow> string \<Rightarrow> int \<Rightarrow> job \<Rightarrow> 'w
     \<Rightarrow> (error + unit) \<times> job \<times> 'w \<times> event list" where
  "queue sh shlex_split command_line ntimes j w =
     (let cl = strip command_line in
      if dquote \<in> set (replace [dquote, dquote] [] cl) then (Inl (BadQuotes [dquote]), j, w, [])
      else
        (case shlex_split cl of
           None \<Rightarrow> (Inl ValueError, j, w, [])
         | Some [] \<Rightarrow> (Inl IndexError, j, w, [])
         | Some (e0 # rest) \<Rightarrow>
             (case setExecutable sh e0 j w of
                (Inl e, j1, w1, ev) \<Rightarrow> (Inl e, j1, w1, ev)
              | (Inr u, j1, w1, ev) \<Rightarrow>
                  (case pop_loop (hd (split_space cl)) (tl (split_space cl)) of
                     Inl e \<Rightarrow> (Inl e, j1, w1, ev)
                   | Inr (executable, args) \<Rightarrow>
                       (let j2 = (if join_space args \<noteq> [] then setArguments (join_space args) j1
                                  else j1);
                            j3 = snd (generateSubmitString True j2)
                        in (Inr (),
                            j3\<lparr>submitLinesSoFar := submitLinesSoFar j3 @ queue_directive ntimes\<rparr>,
                            w1, ev))))))"

definition submit_warning :: string where
  "submit_warning = ''WARNING: Since 'condor_submit' returned an error, your ''
     @ ''job was probably not submitted.  If your job submitted ''
     @ ''after all, this object will still not be able to ''
     @ ''monitor its status.''"

definition submit ::
  "'w shell \<Rightarrow> job \<Rightarrow> 'w \<Rightarrow> (error + int option) \<times> job \<times> 'w \<times> event list" where
  "submit sh j w =
     (let (text, j1) = generateSubmitString True j;
          (r, w1) = sh w (''condor_submit -remote '' @ server j) (Some text);
          retval = fst r; msg = snd r
      in if retval \<noteq> 0 then
           (Inr None, j1, w1, [Stderr (''ERROR #'' @ str_int retval @ '':''), Stderr submit_warning])
         else
           (case re_search_cluster msg of
              None \<Rightarrow> (Inl (BadFormatError ''condor_submit''), j1, w1, [Stdout msg])
            | Some clusterStr \<Rightarrow>
                if \<not> isdigit clusterStr then
                  (Inl (BadFormatError ''condor_submit''), j1, w1, [Stdout msg])
                else
                  (case py_int clusterStr of
                     Inl e \<Rightarrow> (Inl e, j1, w1, [Stdout msg])
                   | Inr c \<Rightarrow> (Inr (Some c), j1\<lparr>cluster := Some c\<rparr>, w1, [Stdout msg]))))"

definition condor_q_format :: string where
  "condor_q_format = '' -format '' @ [dquote] @ ''%d.'' @ [dquote] @ '' ClusterId -format ''
     @ [dquote] @ ''%d'' @ [newline] @ [dquote] @ '' ProcId''"

text \<open>\<^verbatim>\<open>_checkQueue\<close> tests \<^verbatim>\<open>if self.cluster:\<close>, which is false for \<^verbatim>\<open>None\<close> and for 0.\<close>

definition checkQueue :: "'w shell \<Rightarrow> job \<Rightarrow> 'w \<Rightarrow> (error + int \<times> string) \<times> 'w" where
  "checkQueue sh j w =
     (case cluster j of
        None \<Rightarrow> (Inl (SubmissionError ''_checkQueue()''), w)
      | Some c \<Rightarrow>
          if c \<noteq> 0 then
            (let (r, w1) = sh w (''condor_q '' @ str_int c @ condor_q_format) None in (Inr r, w1))
          else (Inl (SubmissionError ''_checkQueue()''), w))"

text \<open>
  \<^verbatim>\<open>wait\<close>, \<^verbatim>\<open>poll\<close> and \<^verbatim>\<open>status\<close> report a non-zero exit code with
  \<^verbatim>\<open>print("ERROR #" + str(retval) + ":", str(mesg), file=sys.stderr)\<close>. The name
  \<^verbatim>\<open>mesg\<close> is bound nowhere: it is no local variable of these methods (theirs is
  \<^verbatim>\<open>msg\<close>), no global of the module and no builtin. Evaluating the argument raises
  \<^verbatim>\<open>NameError\<close> before anything is printed.
\<close>

definition lookup_mesg :: "error + string" where
  "lookup_mesg = Inl (NameError ''mesg'')"

definition poll :: "'w shell \<Rightarrow> job \<Rightarrow> 'w \<Rightarrow> (error + nat) \<times> 'w \<times> event list" where
  "poll sh j w =
     (case cluster j of
        None \<Rightarrow> (Inl (SubmissionError ''poll()''), w, [])
      | Some c \<Rightarrow>
          (case checkQueue sh j w of
             (Inl e, w1) \<Rightarrow> (Inl e, w1, [])
           | (Inr (retval, msg), w1) \<Rightarrow>
               if retval \<noteq> 0 then
                 (case lookup_mesg of
                    Inl e \<Rightarrow> (Inl e, w1, [])
                  | Inr mesg \<Rightarrow> (Inl (BadFormatError ''condor_q''), w1,
                      [Stderr (''ERROR #'' @ str_int retval @ '': '' @ mesg)]))
               else (Inr (py_count (str_int c @ ''.'') msg), w1, [])))"

definition status ::
  "'w shell \<Rightarrow> (string \<Rightarrow> 'r) \<Rightarrow> job \<Rightarrow> 'w \<Rightarrow> (error + 'r) \<times> 'w \<times> event list" where
  "status sh outputFn j w =
     (case cluster j of
        None \<Rightarrow> (Inl (SubmissionError ''status()''), w, [])
      | Some c \<Rightarrow>
          (let (r, w1) = sh w (''condor_q '' @ str_int c) None in
           if fst r \<noteq> 0 then
             (case lookup_mesg of
                Inl e \<Rightarrow> (Inl e, w1, [])
              | Inr mesg \<Rightarrow> (Inl (BadFormatError ''condor_q''), w1,
                  [Stderr (''ERROR #'' @ str_int (fst r) @ '': '' @ mesg)]))
           else (Inr (outputFn (snd r)), w1, [])))"

text \<open>
  The loop of \<^verbatim>\<open>wait\<close>. It runs for as long as the replies name the cluster, which
  may be for ever: the result is \<open>None\<close> when it never returns. The events are what it
  printed and how long it slept, in order. The times are rational numbers: the loop starts
  at 1.0 and adds 0.5, and floating-point numbers hold these halves exactly.
  \<^verbatim>\<open>time.sleep\<close> refuses a negative time with \<^verbatim>\<open>ValueError\<close>, which happens when
  \<^verbatim>\<open>maxPollTime\<close> was set below zero.
\<close>

partial_function (option) wait_loop ::
  "'w shell \<Rightarrow> job \<Rightarrow> int \<Rightarrow> rat \<Rightarrow> int \<Rightarrow> string \<Rightarrow> 'w \<Rightarrow> event list
     \<Rightarrow> ((error + unit) \<times> 'w \<times> event list) option" where
  "wait_loop sh j c currPollTime retval msg w ev =
     (if contains (str_int c) (strip msg) then
        (case (if retval \<noteq> 0 then lookup_mesg else Inr []) of
           Inl e \<Rightarrow> Some (Inl e, w, ev)
         | Inr mesg \<Rightarrow>
             (if min currPollTime (maxPollTime j) < 0 then
                Some (Inl ValueError, w,
                  ev @ (if retval \<noteq> 0 then [Stderr (''ERROR #'' @ str_int retval @ '': '' @ mesg)]
                        else [])
                     @ [Stdout ''.''])
              else
                (case checkQueue sh j w of
                   (Inl e, w1) \<Rightarrow>
                     Some (Inl e, w1,
                       ev @ (if retval \<noteq> 0
                             then [Stderr (''ERROR #'' @ str_int retval @ '': '' @ mesg)] else [])
                          @ [Stdout ''.'', Sleep (min currPollTime (maxPollTime j))])
                 | (Inr r, w1) \<Rightarrow>
                     wait_loop sh j c (currPollTime + 1 / 2) (fst r) (snd r) w1
                       (ev @ (if retval \<noteq> 0
                              then [Stderr (''ERROR #'' @ str_int retval @ '': '' @ mesg)] else [])
                           @ [Stdout ''.'', Sleep (min currPollTime (maxPollTime j))]))))
      else Some (Inr (), w, ev @ [Stdout []]))"

declare wait_loop.simps [code]

definition wait ::
  "'w shell \<Rightarrow> job \<Rightarrow> 'w \<Rightarrow> ((error + unit) \<times> 'w \<times> event list) option" where
  "wait sh j w =
     (case cluster j of
        None \<Rightarrow> Some (Inl (SubmissionError ''wait()''), w, [])
      | Some c \<Rightarrow>
          (case checkQueue sh j w of
             (Inl e, w1) \<Rightarrow> Some (Inl e, w1, [])
           | (Inr r, w1) \<Rightarrow>
               wait_loop sh j c 1 (fst r) (snd r) w1
                 (if strip (snd r) \<noteq> []
                  then [Stdout (''Waiting for cluster '' @ str_int c @ '' to finish'')] else [])))"

text \<open>
  \<^verbatim>\<open>__init__\<close>: the attributes as they are first assigned, then the setters it calls.
  \<open>whoami\<close> is the output of the local \<^verbatim>\<open>whoami\<close> command, or \<^verbatim>\<open>None\<close> when running it
  failed. The test for a local \<^verbatim>\<open>condor_submit\<close> only chooses between a local and a remote
  shell, both of which are \<open>sh\<close> here.
\<close>

definition new_job :: job where
  "new_job = \<lparr>settings = [], submitLinesSoFar = [], executablePath = [], cluster = None,
     maxPollTime = 30, username = PyNone, server = [], submitterUsername = PyNone\<rparr>"

definition init ::
  "'w shell \<Rightarrow> (string \<Rightarrow> error + (pyval \<Rightarrow> pyval option)) \<Rightarrow> pyval \<Rightarrow> pyval \<Rightarrow> pyval
     \<Rightarrow> string \<Rightarrow> 'w \<Rightarrow> (error + unit) \<times> job \<times> 'w \<times> event list" where
  "init sh unpickle whoami universe usern serv w =
     (case setUniverse universe (new_job\<lparr>submitterUsername := whoami\<rparr>) of
        (Inl e, j1) \<Rightarrow> (Inl e, j1, w, [])
      | (Inr u, j1) \<Rightarrow>
          setEmail sh unpickle PyNone
            (setDiskSpace 32 (setRAM 1024 (setCPUNum 1 (setServer serv (setUsername usern j1))))) w)"

text \<open>
  The methods of a job as operations on the job and the outside world. A getter, \<^verbatim>\<open>poll\<close>,
  \<^verbatim>\<open>status\<close>, \<^verbatim>\<open>wait\<close> and \<^verbatim>\<open>saveSubmitFile\<close> assign no attribute of the job; the others
  leave the job as their model returns it, also when they raise. An operation has no
  result only when it is a \<^verbatim>\<open>wait\<close> that never returns.
\<close>

datatype op =
    SetUniverse pyval
  | SetExecutable string
  | SetTransferExecutable pyval
  | SetArguments string
  | SetInitialDirectory pyval
  | SetInput pyval
  | SetOutput pyval
  | SetError pyval
  | SetLog pyval
  | SetRequirements pyval
  | SetMatlabLock pyval
  | SetCPUNum int
  | SetRAM int
  | SetDiskSpace int
  | SetTransferFiles pyval
  | SetWhenTransferOutput pyval
  | SetNotification pyval
  | SetEmail pyval
  | SetUsername pyval
  | SetServer string
  | Getter
  | SaveSubmitFile
  | Queue string int
  | Submit
  | Wait
  | Poll
  | Status

fun run_op ::
  "'w shell \<Rightarrow> (string \<Rightarrow> string list option) \<Rightarrow> (string \<Rightarrow> error + (pyval \<Rightarrow> pyval option))
     \<Rightarrow> op \<Rightarrow> job \<times> 'w \<Rightarrow> (job \<times> 'w) option" where
  "run_op sh sp un (SetUniverse x) (j, w) = Some (snd (setUniverse x j), w)"
| "run_op sh sp un (SetExecutable x) (j, w) =
     (case setExecutable sh x j w of (r, j1, w1, ev) \<Rightarrow> Some (j1, w1))"
| "run_op sh sp un (SetTransferExecutable x) (j, w) = Some (snd (setTransferExecutable x j), w)"
| "run_op sh sp un (SetArguments x) (j, w) = Some (setArguments x j, w)"
| "run_op sh sp un (SetInitialDirectory x) (j, w) = Some (setInitialDirectory x j, w)"
| "run_op sh sp un (SetInput x) (j, w) = Some (setInput x j, w)"
| "run_op sh sp un (SetOutput x) (j, w) = Some (setOutput x j, w)"
| "run_op sh sp un (SetError x) (j, w) = Some (setError x j, w)"
| "run_op sh sp un (SetLog x) (j, w) = Some (setLog x j, w)"
| "run_op sh sp un (SetRequirements x) (j, w) = Some (setRequirements x j, w)"
| "run_op sh sp un (SetMatlabLock x) (j, w) = Some (setMatlabLock x j, w)"
| "run_op sh sp un (SetCPUNum x) (j, w) = Some (setCPUNum x j, w)"
| "run_op sh sp un (SetRAM x) (j, w) = Some (setRAM x j, w)"
| "run_op sh sp un (SetDiskSpace x) (j, w) = Some (setDiskSpace x j, w)"
| "run_op sh sp un (SetTransferFiles x) (j, w) = Some (setTransferFiles x j, w)"
| "run_op sh sp un (SetWhenTransferOutput x) (j, w) = Some (setWhenTransferOutput x j, w)"
| "run_op sh sp un (SetNotification x) (j, w) = Some (setNotification x j, w)"
| "run_op sh sp un (SetEmail x) (j, w) =
     (case setEmail sh un x j w of (r, j1, w1, ev) \<Rightarrow> Some (j1, w1))"
| "run_op sh sp un (SetUsername x) (j, w) = Some (setUsername x j, w)"
| "run_op sh sp un (SetServer x) (j, w) = Some (setServer x j, w)"
| "run_op sh sp un Getter (j, w) = Some (j, w)"
| "run_op sh sp un SaveSubmitFile (j, w) = Some (j, w)"
| "run_op sh sp un (Queue c n) (j, w) =
     (case queue sh sp c n j w of (r, j1, w1, ev) \<Rightarrow> Some (j1, w1))"
| "run_op sh sp un Submit (j, w) =
     (case submit sh j w of (r, j1, w1, ev) \<Rightarrow> Some (j1, w1))"
| "run_op sh sp un Wait (j, w) =
     (case wait sh j w of None \<Rightarrow> None | Some (r, w1, ev) \<Rightarrow> Some (j, w1))"
| "run_op sh sp un Poll (j, w) = (case poll sh j w of (r, w1, ev) \<Rightarrow> Some (j, w1))"
| "run_op sh sp un Status (j, w) = (case status sh id j w of (r, w1, ev) \<Rightarrow> Some (j, w1))"

fun run_ops ::
  "'w shell \<Rightarrow> (string \<Rightarrow> string list option) \<Rightarrow> (string \<Rightarrow> error + (pyval \<Rightarrow> pyval option))
     \<Rightarrow> op list \<Rightarrow> job \<times> 'w \<Rightarrow> (job \<times> 'w) option" where
  "run_ops sh sp un [] s = Some s"
| "run_ops sh sp un (x # xs) s =
     (case run_op sh sp un x s of None \<Rightarrow> None | Some s1 \<Rightarrow> run_ops sh sp un xs s1)"

section \<open>What the claims are compared with\<close>

text \<open>
  The number of occurrences of \<open>sub\<close> in \<open>s\<close>: the number of places of \<open>s\<close> where
  \<open>sub\<close> starts, whether the occurrences overlap or not.
\<close>

fun occurrences :: "string \<Rightarrow> string \<Rightarrow> nat" where
  "occurrences sub [] = (if sub = [] then 1 else 0)"
| "occurrences sub (c # cs) = (if is_prefix sub (c # cs) then 1 else 0) + occurrences sub cs"

text \<open>
  A double quote that is not paired: reading from the left, some run of consecutive
  double quotes, taken as long as it goes, has an odd length. The flag says whether the
  run that ends at the place reached so far is odd.
\<close>

fun quote_run_odd :: "bool \<Rightarrow> string \<Rightarrow> bool" where
  "quote_run_odd odd_so_far [] = odd_so_far"
| "quote_run_odd odd_so_far (c # cs) =
     (if c = dquote then quote_run_odd (\<not> odd_so_far) cs
      else odd_so_far \<or> quote_run_odd False cs)"

definition unpaired_dquote :: "string \<Rightarrow> bool" where
  "unpaired_dquote s = quote_run_odd False s"

text \<open>
  A scripted outside world for the examples: the state is the list of replies still to
  come, each command takes the next one, and a command run after the last reply fails
  with exit code 1 and no output.
\<close>

definition scripted :: "(int \<times> string) list shell" where
  "scripted w command input = (case w of [] \<Rightarrow> ((1, []), []) | r # rs \<Rightarrow> (r, rs))"

text \<open>
  For the examples, a splitter that gives the non-empty fields between the spaces, as
  \<^verbatim>\<open>shlex.split\<close> does on a command line without quotes, backslashes, tabs and line
  breaks. \<^verbatim>\<open>queue\<close> uses the first field only, and calls the splitter only after its
  test of the double quotes has passed. The mail map of the examples is the dictionary
  with the one entry \<^verbatim>\<open>{None: "nobody@example.org"}\<close>.
\<close>

definition plain_split :: "string \<Rightarrow> string list option" where
  "plain_split s = Some (filter (\<lambda>f. f \<noteq> []) (split_space s))"

definition mail_map :: "string \<Rightarrow> error + (pyval \<Rightarrow> pyval option)" where
  "mail_map bytes = Inr (\<lambda>k. if k = PyNone then Some (PyStr ''nobody@example.org'') else None)"

definition fresh_job :: job where
  "fresh_job = setDiskSpace 32 (setRAM 1024 (setCPUNum 1 (setServer ''condor.cs.wlu.edu''
     (setUsername (PyStr ''kollerg'')
        (snd (setUniverse (PyStr ''vanilla'') (new_job\<lparr>submitterUsername := PyStr ''kollerg''\<rparr>)))))))"

section \<open>Dictionaries and the example job\<close>

lemma map_of_dict_set_same: "map_of (dict_set k v d) k = Some v"
  by (induction d) auto

lemma map_of_dict_set_other: "k' \<noteq> k \<Longrightarrow> map_of (dict_set k v d) k' = map_of d k'"
  by (induction d) auto

lemma fresh_job_settings:
  "fresh_job = \<lparr>settings = [(''Universe'', PyStr ''vanilla''), (''request_cpus'', PyInt 1),
       (''request_memory'', PyInt 1024), (''request_disk'', PyInt 32)],
     submitLinesSoFar = [], executablePath = [], cluster = None, maxPollTime = 30,
     username = PyStr ''kollerg'', server = ''condor.cs.wlu.edu'',
     submitterUsername = PyStr ''kollerg''\<rparr>"
  by (simp add: fresh_job_def new_job_def setUniverse_def validUniverses_def put_setting_def
      setUsername_def setServer_def setCPUNum_def setRAM_def setDiskSpace_def)

text \<open>
  The example job is the one \<^verbatim>\<open>Job('vanilla')\<close> builds for the user \<^verbatim>\<open>kollerg\<close> when the
  mail map cannot be read.
\<close>

lemma fresh_job_init:
  "init scripted mail_map (PyStr ''kollerg'') (PyStr ''vanilla'') PyNone ''condor.cs.wlu.edu'' []
     = (Inr (), fresh_job, [], [])"
  by (simp add: init_def fresh_job_def new_job_def setUniverse_def validUniverses_def put_setting_def
      setUsername_def setServer_def setCPUNum_def setRAM_def setDiskSpace_def setEmail_def
      scripted_def)

section \<open>Settings\<close>

text \<open>
  Claim C6. \<^verbatim>\<open>setUniverse(x)\<close> succeeds if and only if \<open>x\<close> is one of the seven strings
  vanilla, standard, java, scheduler, local, grid and vm. When it succeeds, \<open>x\<close> is stored
  as the Universe setting, which \<^verbatim>\<open>getUniverse\<close> then returns; for every other argument
  it raises \<^verbatim>\<open>InvalidUniverseError\<close> and the job, its settings included, is as before.
\<close>

theorem setUniverse_valid_iff:
  "(fst (setUniverse x j) = Inr ())
     = (x \<in> PyStr ` {''vanilla'', ''standard'', ''java'', ''scheduler'', ''local'', ''grid'', ''vm''})
   \<and> setUniverse x j =
     (if x \<in> PyStr ` {''vanilla'', ''standard'', ''java'', ''scheduler'', ''local'', ''grid'', ''vm''}
      then (Inr (), j\<lparr>settings := dict_set ''Universe'' x (settings j)\<rparr>)
      else (Inl (InvalidUniverseError x), j))
   \<and> (if x \<in> PyStr ` {''vanilla'', ''standard'', ''java'', ''scheduler'', ''local'', ''grid'', ''vm''}
      then getUniverse (snd (setUniverse x j)) = Inr x
      else settings (snd (setUniverse x j)) = settings j)"
  by (auto simp: setUniverse_def validUniverses_def put_setting_def getUniverse_def
      get_setting_def map_of_dict_set_same)

text \<open>
  \<^verbatim>\<open>setTransferExecutable\<close> raises \<^verbatim>\<open>TypeError\<close> for every argument that is not a
  boolean and leaves the job as it was; it stores a boolean under the key
  \<^verbatim>\<open>transfer_executable\<close>.
\<close>

lemma setTransferExecutable_type:
  "setTransferExecutable x j =
     (case x of
        PyBool b \<Rightarrow> (Inr (), j\<lparr>settings := dict_set ''transfer_executable'' (PyBool b) (settings j)\<rparr>)
      | _ \<Rightarrow> (Inl TypeError, j))"
  by (cases x) (simp_all add: setTransferExecutable_def put_setting_def)

text \<open>
  For every boolean, \<^verbatim>\<open>getTransferExecutable\<close> right after \<^verbatim>\<open>setTransferExecutable\<close>
  gives what \<^verbatim>\<open>getInput\<close> gave before, but for the name in the error.
\<close>

lemma getTransferExecutable_after_set:
  "getTransferExecutable (snd (setTransferExecutable (PyBool b) j))
     = get_setting ''Input'' (EmptySetting ''TransferExecutable'') j"
  by (simp add: getTransferExecutable_def setTransferExecutable_def put_setting_def
      get_setting_def map_of_dict_set_other)

text \<open>
  Claim C8. \<^verbatim>\<open>setTransferExecutable(True)\<close> on the example job stores \<^verbatim>\<open>True\<close> under the
  key \<^verbatim>\<open>transfer_executable\<close>, but \<^verbatim>\<open>getTransferExecutable()\<close> reads the key
  \<^verbatim>\<open>Input\<close>: right after the setter it raises \<^verbatim>\<open>EmptySetting\<close>, and once an input file is
  set it returns the name of that file. The getter does not return what the setter stored.
\<close>

theorem getTransferExecutable_reads_Input:
  "getTransferExecutable (snd (setTransferExecutable (PyBool True) fresh_job))
     = Inl (EmptySetting ''TransferExecutable'')
   \<and> map_of (settings (snd (setTransferExecutable (PyBool True) fresh_job))) ''transfer_executable''
     = Some (PyBool True)
   \<and> getTransferExecutable
       (setInput (PyStr ''in.txt'') (snd (setTransferExecutable (PyBool True) fresh_job)))
     = Inr (PyStr ''in.txt'')"
  by (simp add: fresh_job_settings getTransferExecutable_def setTransferExecutable_def
      put_setting_def get_setting_def setInput_def)

text \<open>
  The loop of \<^verbatim>\<open>_generateSubmitString\<close> leaves the text it started with in front and
  adds the lines of the settings behind it, one after the other.
\<close>

lemma submit_lines_append:
  "submit_lines allLines d
     = allLines @ concat (map (\<lambda>kv. fst kv @ '' = '' @ py_str (snd kv) @ [newline]) d)"
  by (induction d arbitrary: allLines) auto

text \<open>
  Claim C2. A flush that clears (\<^verbatim>\<open>_generateSubmitString(True)\<close>) returns the accumulated
  text followed, for each setting in the order of the dictionary, by the line made of the
  key, the three characters \<^verbatim>\<open> = \<close>, the text of the value and a line break. It
  empties the settings, keeps the returned text as the accumulated text and changes nothing
  else of the job. A second flush right after it returns that same text and the same job:
  it appends no line. On the example job the text is the four lines of its settings, with
  the integers in decimal.
\<close>

theorem flush_clears_settings:
  "fst (generateSubmitString True j)
     = submitLinesSoFar j
       @ concat (map (\<lambda>kv. fst kv @ '' = '' @ py_str (snd kv) @ [CHR 0x0A]) (settings j))
   \<and> snd (generateSubmitString True j)
     = j\<lparr>settings := [], submitLinesSoFar := fst (generateSubmitString True j)\<rparr>
   \<and> settings (snd (generateSubmitString True j)) = []
   \<and> submitLinesSoFar (snd (generateSubmitString True j)) = fst (generateSubmitString True j)
   \<and> generateSubmitString True (snd (generateSubmitString True j))
       = (fst (generateSubmitString True j), snd (generateSubmitString True j))
   \<and> fst (generateSubmitString True fresh_job)
     = ''Universe = vanilla'' @ [CHR 0x0A] @ ''request_cpus = 1'' @ [CHR 0x0A]
       @ ''request_memory = 1024'' @ [CHR 0x0A] @ ''request_disk = 32'' @ [CHR 0x0A]"
proof -
  have a: "fst (generateSubmitString True j)
     = submitLinesSoFar j
       @ concat (map (\<lambda>kv. fst kv @ '' = '' @ py_str (snd kv) @ [CHR 0x0A]) (settings j))"
    by (simp add: generateSubmitString_def Let_def submit_lines_append newline_def)
  have b: "snd (generateSubmitString True j)
     = j\<lparr>settings := [], submitLinesSoFar := fst (generateSubmitString True j)\<rparr>"
    by (simp add: generateSubmitString_def Let_def)
  have c: "generateSubmitString True (snd (generateSubmitString True j))
       = (fst (generateSubmitString True j), snd (generateSubmitString True j))"
    by (simp add: generateSubmitString_def Let_def)
  have d: "fst (generateSubmitString True fresh_job)
     = ''Universe = vanilla'' @ [CHR 0x0A] @ ''request_cpus = 1'' @ [CHR 0x0A]
       @ ''request_memory = 1024'' @ [CHR 0x0A] @ ''request_disk = 32'' @ [CHR 0x0A]"
    by code_simp
  from b have e: "settings (snd (generateSubmitString True j)) = []"
    and f: "submitLinesSoFar (snd (generateSubmitString True j)) = fst (generateSubmitString True j)"
    by (simp_all add: generateSubmitString_def Let_def)
  from a b e f c d show ?thesis by blast
qed

text \<open>
  Two calls of \<^verbatim>\<open>queue('whoami')\<close> on the example job: the first stanza holds the
  settings, the second is a bare \<^verbatim>\<open>Queue\<close> line, since nothing was set after the
  first flush.
\<close>

lemma queue_twice_bare_stanza:
  "map_option (\<lambda>s. (settings (fst s), submitLinesSoFar (fst s)))
     (run_ops scripted plain_split mail_map [Queue ''whoami'' 1, Queue ''whoami'' 1]
        (fresh_job, [(0, ''whoami''), (0, ''whoami'')]))
   = Some ([], ''Universe = vanilla'' @ [newline] @ ''request_cpus = 1'' @ [newline]
        @ ''request_memory = 1024'' @ [newline] @ ''request_disk = 32'' @ [newline]
        @ ''Executable = whoami'' @ [newline] @ ''Queue'' @ [newline] @ ''Queue'' @ [newline])"
  by code_simp

text \<open>
  Claim C10. \<^verbatim>\<open>setEmail\<close> with an argument that is not true (no argument, \<^verbatim>\<open>None\<close> or the
  empty string) reads the mail map. When that command exits with a code other than zero
  the job is left as it was, so no \<^verbatim>\<open>notify_user\<close> is written. When it exits with zero
  and the file decodes to the dictionary \<open>emails\<close>, \<^verbatim>\<open>notify_user\<close> becomes the entry of
  the job's username, or else the entry of \<^verbatim>\<open>None\<close>, or else the address
  \<^verbatim>\<open>kollerg14@mail.wlu.edu\<close>, and \<^verbatim>\<open>getEmail\<close> returns it.
\<close>

theorem setEmail_default:
  assumes "\<not> truthy s"
    and "sh w ''cat /mnt/config/scripts/mail_map.pickle'' None = ((st, bytes), w1)"
  shows "(st \<noteq> 0 \<longrightarrow> setEmail sh unpickle s j w = (Inr (), j, w1, []))
    \<and> (st = 0 \<and> unpickle bytes = Inr emails \<longrightarrow>
         fst (setEmail sh unpickle s j w) = Inr ()
         \<and> fst (snd (setEmail sh unpickle s j w))
           = put_setting ''notify_user''
               (case emails (getUsername j) of
                  Some v \<Rightarrow> v
                | None \<Rightarrow>
                    (case emails PyNone of
                       Some v \<Rightarrow> v
                     | None \<Rightarrow> PyStr ''kollerg14@mail.wlu.edu'')) j
         \<and> getEmail (fst (snd (setEmail sh unpickle s j w)))
           = Inr (case emails (getUsername j) of
                    Some v \<Rightarrow> v
                  | None \<Rightarrow>
                      (case emails PyNone of
                         Some v \<Rightarrow> v
                       | None \<Rightarrow> PyStr ''kollerg14@mail.wlu.edu'')))"
  using assms
  by (auto simp: setEmail_def getEmail_def get_setting_def put_setting_def map_of_dict_set_same
      split: option.splits)

theorem setEmail_default_witness:
  "setEmail scripted mail_map PyNone fresh_job [(1, ''cat: No such file or directory'')]
     = (Inr (), fresh_job, [], [])
   \<and> getEmail (fst (snd (setEmail scripted mail_map (PyStr []) fresh_job [(0, ''bytes'')])))
     = Inr (PyStr ''nobody@example.org'')"
proof -
  have t1: "\<not> truthy PyNone" and t2: "\<not> truthy (PyStr [])"
    by simp_all
  have s1: "scripted [(1, ''cat: No such file or directory'')]
      ''cat /mnt/config/scripts/mail_map.pickle'' None
      = ((1, ''cat: No such file or directory''), [])"
    by (simp add: scripted_def)
  have s2: "scripted [(0, ''bytes'')] ''cat /mnt/config/scripts/mail_map.pickle'' None
      = ((0, ''bytes''), [])"
    by (simp add: scripted_def)
  have m: "mail_map ''bytes''
      = Inr (\<lambda>k. if k = PyNone then Some (PyStr ''nobody@example.org'') else None)"
    by (simp add: mail_map_def)
  have u: "getUsername fresh_job = PyStr ''kollerg''"
    by (simp add: getUsername_def fresh_job_settings)
  from setEmail_default [where sh = scripted and w = "[(1, ''cat: No such file or directory'')]"
      and unpickle = mail_map and j = fresh_job, OF t1 s1]
  have "setEmail scripted mail_map PyNone fresh_job [(1, ''cat: No such file or directory'')]
     = (Inr (), fresh_job, [], [])"
    by simp
  moreover have "getEmail (fst (snd (setEmail scripted mail_map (PyStr []) fresh_job [(0, ''bytes'')])))
     = Inr (PyStr ''nobody@example.org'')"
  proof -
    note r = setEmail_default [where sh = scripted and w = "[(0, ''bytes'')]"
      and unpickle = mail_map and j = fresh_job
      and emails = "\<lambda>k. if k = PyNone then Some (PyStr ''nobody@example.org'') else None",
      OF t2 s2]
    from r m have "getEmail (fst (snd (setEmail scripted mail_map (PyStr []) fresh_job [(0, ''bytes'')])))
      = Inr (case (\<lambda>k. if k = PyNone then Some (PyStr ''nobody@example.org'') else None)
                   (getUsername fresh_job) of
                    Some v \<Rightarrow> v
                  | None \<Rightarrow>
                      (case (\<lambda>k. if k = PyNone then Some (PyStr ''nobody@example.org'') else None)
                            PyNone of
                         Some v \<Rightarrow> v
                       | None \<Rightarrow> PyStr ''kollerg14@mail.wlu.edu''))"
      by blast
    then show ?thesis by (simp add: u)
  qed
  ultimately show ?thesis by simp
qed


text \<open>
  The integer \<^verbatim>\<open>int\<close> reads from a run of digits is its decimal value: it reads the
  decimal text of every natural number back as that number.
\<close>

lemma str_nat_nonempty: "str_nat n \<noteq> []"
  by (subst str_nat.simps) simp

lemma str_int_nonempty: "str_int i \<noteq> []"
  by (simp add: str_int_def str_nat_nonempty)

lemma digit_char_props: "d < 10 \<Longrightarrow> is_digit (digit_char d) \<and> digit_val (digit_char d) = int d"
proof -
  assume "d < 10"
  then have "d \<in> {0, 1, 2, 3, 4, 5, 6, 7, 8, 9}" by auto
  then show ?thesis
    by (auto simp: digit_char_def is_digit_def digit_val_def)
qed

lemma str_nat_digits: "list_all is_digit (str_nat n)"
proof (induction n rule: str_nat.induct)
  case (1 n)
  show ?case
  proof (cases "n < 10")
    case True
    then show ?thesis
      using digit_char_props [of n] by (subst str_nat.simps) simp
  next
    case False
    have "is_digit (digit_char (n mod 10))"
      using digit_char_props [of "n mod 10"] by simp
    with False 1 show ?thesis
      by (subst str_nat.simps) simp
  qed
qed

lemma decimal_str_nat: "foldl (\<lambda>acc c. 10 * acc + digit_val c) 0 (str_nat n) = int n"
proof (induction n rule: str_nat.induct)
  case (1 n)
  show ?case
  proof (cases "n < 10")
    case True
    then show ?thesis
      using digit_char_props [of n] by (subst str_nat.simps) simp
  next
    case False
    have "digit_val (digit_char (n mod 10)) = int (n mod 10)"
      using digit_char_props [of "n mod 10"] by simp
    with False 1 have "foldl (\<lambda>acc c. 10 * acc + digit_val c) 0 (str_nat n)
        = 10 * int (n div 10) + int (n mod 10)"
      by (subst str_nat.simps) simp
    also have "\<dots> = int n"
      by (simp add: zdiv_int zmod_int)
    finally show ?thesis .
  qed
qed

lemma py_int_str_nat: "py_int (str_nat n) = Inr (int n)"
  by (simp add: py_int_def str_nat_digits decimal_str_nat str_nat_nonempty)

section \<open>Submission\<close>


lemma is_prefix_append: "is_prefix p s = (\<exists>r. s = p @ r)"
  by (induction p s rule: is_prefix.induct) auto

lemma is_prefix_take: "is_prefix p s = (take (length p) s = p)"
  by (induction p s rule: is_prefix.induct) auto

lemma re_search_digits:
  "re_search_cluster msg = Some ds \<Longrightarrow> ds \<noteq> [] \<and> list_all is_digit ds"
proof (induction msg)
  case Nil
  then show ?case by simp
next
  case (Cons c cs)
  show ?case
  proof (cases "is_prefix ''cluster '' (c # cs) \<and> takeWhile is_digit (drop 8 (c # cs)) \<noteq> []")
    case True
    have "re_search_cluster (c # cs) = Some (takeWhile is_digit (drop 8 (c # cs)))"
      by (simp only: re_search_cluster.simps if_P [OF True])
    with Cons.prems have "ds = takeWhile is_digit (drop 8 (c # cs))" by simp
    with True show ?thesis
      by (metis list_all_iff set_takeWhileD)
  next
    case False
    have "re_search_cluster (c # cs) = re_search_cluster cs"
      by (simp only: re_search_cluster.simps if_not_P [OF False])
    with Cons show ?thesis by simp
  qed
qed

lemma re_search_place:
  "re_search_cluster msg = Some ds \<Longrightarrow>
     \<exists>pre post. msg = pre @ ''cluster '' @ ds @ post \<and> (post = [] \<or> \<not> is_digit (hd post))"
proof (induction msg)
  case Nil
  then show ?case by simp
next
  case (Cons c cs)
  show ?case
  proof (cases "is_prefix ''cluster '' (c # cs) \<and> takeWhile is_digit (drop 8 (c # cs)) \<noteq> []")
    case True
    then obtain r where r: "c # cs = ''cluster '' @ r"
      using is_prefix_append by blast
    then have d: "drop 8 (c # cs) = r" by simp
    have "re_search_cluster (c # cs) = Some (takeWhile is_digit (drop 8 (c # cs)))"
      by (simp only: re_search_cluster.simps if_P [OF True])
    with Cons.prems have ds: "ds = takeWhile is_digit r" unfolding d by simp
    have "r = ds @ dropWhile is_digit r" by (simp add: ds)
    moreover have "dropWhile is_digit r = [] \<or> \<not> is_digit (hd (dropWhile is_digit r))"
      by (metis hd_dropWhile)
    ultimately have "c # cs = [] @ ''cluster '' @ ds @ dropWhile is_digit r
        \<and> (dropWhile is_digit r = [] \<or> \<not> is_digit (hd (dropWhile is_digit r)))"
      using r by simp
    then show ?thesis by blast
  next
    case False
    have "re_search_cluster (c # cs) = re_search_cluster cs"
      by (simp only: re_search_cluster.simps if_not_P [OF False])
    with Cons.prems have "re_search_cluster cs = Some ds" by simp
    then obtain pre post where "cs = pre @ ''cluster '' @ ds @ post" "post = [] \<or> \<not> is_digit (hd post)"
      using Cons.IH by blast
    then have "c # cs = (c # pre) @ ''cluster '' @ ds @ post \<and> (post = [] \<or> \<not> is_digit (hd post))"
      by simp
    then show ?thesis by blast
  qed
qed

lemma re_search_none:
  "(re_search_cluster msg = None)
     = (\<not> (\<exists>pre d post. msg = pre @ ''cluster '' @ d # post \<and> is_digit d))"
proof (induction msg)
  case Nil
  then show ?case by simp
next
  case (Cons c cs)
  let ?here = "is_prefix ''cluster '' (c # cs) \<and> takeWhile is_digit (drop 8 (c # cs)) \<noteq> []"
  have here: "?here = (\<exists>d post. c # cs = ''cluster '' @ d # post \<and> is_digit d)"
  proof
    assume h: ?here
    then obtain r where r: "c # cs = ''cluster '' @ r" using is_prefix_append by blast
    then have d: "drop 8 (c # cs) = r" by simp
    from h have "takeWhile is_digit r \<noteq> []" unfolding d by simp
    then obtain d post where "r = d # post" "is_digit d"
      by (cases r) (auto split: if_splits)
    with r show "\<exists>d post. c # cs = ''cluster '' @ d # post \<and> is_digit d" by blast
  next
    assume "\<exists>d post. c # cs = ''cluster '' @ d # post \<and> is_digit d"
    then obtain d post where e: "c # cs = ''cluster '' @ d # post" and dg: "is_digit d" by blast
    have "is_prefix ''cluster '' (c # cs)" using e is_prefix_append by blast
    moreover have "drop 8 (c # cs) = d # post" using e by simp
    ultimately show ?here using dg by simp
  qed
  have split: "(\<exists>pre d post. c # cs = pre @ ''cluster '' @ d # post \<and> is_digit d)
      = ((\<exists>d post. c # cs = ''cluster '' @ d # post \<and> is_digit d)
         \<or> (\<exists>pre d post. cs = pre @ ''cluster '' @ d # post \<and> is_digit d))"
  proof
    assume "\<exists>pre d post. c # cs = pre @ ''cluster '' @ d # post \<and> is_digit d"
    then obtain pre d post where e: "c # cs = pre @ ''cluster '' @ d # post" and dg: "is_digit d"
      by blast
    show "(\<exists>d post. c # cs = ''cluster '' @ d # post \<and> is_digit d)
         \<or> (\<exists>pre d post. cs = pre @ ''cluster '' @ d # post \<and> is_digit d)"
    proof (cases pre)
      case Nil
      with e dg show ?thesis by auto
    next
      case (Cons p ps)
      with e have "cs = ps @ ''cluster '' @ d # post" by simp
      with dg show ?thesis by blast
    qed
  next
    assume "(\<exists>d post. c # cs = ''cluster '' @ d # post \<and> is_digit d)
         \<or> (\<exists>pre d post. cs = pre @ ''cluster '' @ d # post \<and> is_digit d)"
    then show "\<exists>pre d post. c # cs = pre @ ''cluster '' @ d # post \<and> is_digit d"
    proof
      assume "\<exists>d post. c # cs = ''cluster '' @ d # post \<and> is_digit d"
      then obtain d post where "c # cs = [] @ ''cluster '' @ d # post \<and> is_digit d" by auto
      then show ?thesis by blast
    next
      assume "\<exists>pre d post. cs = pre @ ''cluster '' @ d # post \<and> is_digit d"
      then obtain pre d post where "c # cs = (c # pre) @ ''cluster '' @ d # post \<and> is_digit d" by auto
      then show ?thesis by blast
    qed
  qed
  show ?case
  proof (cases ?here)
    case True
    have "re_search_cluster (c # cs) = Some (takeWhile is_digit (drop 8 (c # cs)))"
      by (simp only: re_search_cluster.simps if_P [OF True])
    with True show ?thesis unfolding split here [symmetric] by simp
  next
    case False
    have "re_search_cluster (c # cs) = re_search_cluster cs"
      by (simp only: re_search_cluster.simps if_not_P [OF False])
    with False show ?thesis unfolding split here [symmetric] using Cons.IH by simp
  qed
qed

lemma is_digit_isdigit_char: "is_digit c \<Longrightarrow> isdigit_char c"
  by (simp add: isdigit_char_def)

lemma digits_isdigit: "ds \<noteq> [] \<Longrightarrow> list_all is_digit ds \<Longrightarrow> isdigit ds"
  by (auto simp: isdigit_def list_all_iff is_digit_isdigit_char)


text \<open>
  Claim C1. \<^verbatim>\<open>submit\<close> flushes the settings and sends the submission text to
  \<^verbatim>\<open>condor_submit\<close>. When the exit code is not zero it prints the error code and a warning
  on the standard error, returns \<^verbatim>\<open>None\<close> and raises nothing; the cluster identifier
  is what it was, absent for a job not submitted before. When the exit code is zero and
  the reply holds \<^verbatim>\<open>cluster \<close> followed by a digit, it takes the digits at the first such
  place, makes their decimal value the cluster identifier and returns it. When the exit
  code is zero and the reply holds no such place it raises \<^verbatim>\<open>BadFormatError\<close> and the
  cluster identifier is what it was. The captured text is never non-numeric.
\<close>

theorem submit_outcomes:
  assumes "generateSubmitString True j = (text, j1)"
    and "sh w (''condor_submit -remote '' @ server j) (Some text) = ((retval, msg), w1)"
  shows "(retval \<noteq> 0 \<longrightarrow>
            submit sh j w = (Inr None, j1, w1,
              [Stderr (''ERROR #'' @ str_int retval @ '':''), Stderr submit_warning])
            \<and> cluster j1 = cluster j)
    \<and> (retval = 0 \<and> re_search_cluster msg = None \<longrightarrow>
            submit sh j w = (Inl (BadFormatError ''condor_submit''), j1, w1, [Stdout msg])
            \<and> cluster j1 = cluster j)
    \<and> (retval = 0 \<and> re_search_cluster msg = Some ds \<longrightarrow>
            (\<exists>c. py_int ds = Inr c
               \<and> submit sh j w = (Inr (Some c), j1\<lparr>cluster := Some c\<rparr>, w1, [Stdout msg])))
    \<and> (re_search_cluster msg = None)
         = (\<not> (\<exists>pre d post. msg = pre @ ''cluster '' @ d # post \<and> is_digit d))
    \<and> (re_search_cluster msg = Some ds \<longrightarrow>
          ds \<noteq> [] \<and> list_all is_digit ds
          \<and> (\<exists>pre post. msg = pre @ ''cluster '' @ ds @ post \<and> (post = [] \<or> \<not> is_digit (hd post))))"
proof -
  have cl: "cluster j1 = cluster j"
    using assms(1) by (auto simp: generateSubmitString_def Let_def)
  have a: "retval \<noteq> 0 \<Longrightarrow> submit sh j w = (Inr None, j1, w1,
              [Stderr (''ERROR #'' @ str_int retval @ '':''), Stderr submit_warning])"
    using assms by (simp add: submit_def)
  have b: "retval = 0 \<Longrightarrow> re_search_cluster msg = None \<Longrightarrow>
      submit sh j w = (Inl (BadFormatError ''condor_submit''), j1, w1, [Stdout msg])"
    using assms by (simp add: submit_def)
  have c: "\<exists>c. py_int ds = Inr c
               \<and> submit sh j w = (Inr (Some c), j1\<lparr>cluster := Some c\<rparr>, w1, [Stdout msg])"
    if r: "retval = 0" and m: "re_search_cluster msg = Some ds"
  proof -
    from re_search_digits [OF m] have d: "ds \<noteq> []" "list_all is_digit ds" by simp_all
    then have i: "isdigit ds" by (rule digits_isdigit)
    from d have p: "py_int ds = Inr (foldl (\<lambda>acc c. 10 * acc + digit_val c) 0 ds)"
      by (simp add: py_int_def)
    show ?thesis
      using assms r m i p by (simp add: submit_def)
  qed
  show ?thesis
    using cl a b c re_search_none [of msg] re_search_digits [of msg ds] re_search_place [of msg ds]
    by blast
qed

theorem submit_outcomes_witness:
  "submit scripted fresh_job [(0, ''1 job(s) submitted to cluster 42.'')]
     = (Inr (Some 42), (snd (generateSubmitString True fresh_job))\<lparr>cluster := Some 42\<rparr>, [],
        [Stdout ''1 job(s) submitted to cluster 42.''])
   \<and> fst (submit scripted fresh_job [(3, ''ERROR: no schedd'')]) = Inr None
   \<and> fst (submit scripted fresh_job [(0, ''Submitting job(s)'')]) = Inl (BadFormatError ''condor_submit'')"
proof -
  have g: "generateSubmitString True fresh_job
      = (fst (generateSubmitString True fresh_job), snd (generateSubmitString True fresh_job))"
    by simp
  have s1: "scripted [(0, ''1 job(s) submitted to cluster 42.'')]
      (''condor_submit -remote '' @ server fresh_job) (Some (fst (generateSubmitString True fresh_job)))
      = ((0, ''1 job(s) submitted to cluster 42.''), [])"
    by (simp add: scripted_def)
  have s2: "scripted [(3, ''ERROR: no schedd'')]
      (''condor_submit -remote '' @ server fresh_job) (Some (fst (generateSubmitString True fresh_job)))
      = ((3, ''ERROR: no schedd''), [])"
    by (simp add: scripted_def)
  have s3: "scripted [(0, ''Submitting job(s)'')]
      (''condor_submit -remote '' @ server fresh_job) (Some (fst (generateSubmitString True fresh_job)))
      = ((0, ''Submitting job(s)''), [])"
    by (simp add: scripted_def)
  have r1: "re_search_cluster ''1 job(s) submitted to cluster 42.'' = Some ''42''"
    by code_simp
  have r3: "re_search_cluster ''Submitting job(s)'' = None"
    by code_simp
  have p1: "py_int ''42'' = Inr 42"
    by code_simp
  from submit_outcomes [where sh = scripted and w = "[(0, ''1 job(s) submitted to cluster 42.'')]"
      and ds = "''42''", OF g s1] r1 p1
  have "submit scripted fresh_job [(0, ''1 job(s) submitted to cluster 42.'')]
     = (Inr (Some 42), (snd (generateSubmitString True fresh_job))\<lparr>cluster := Some 42\<rparr>, [],
        [Stdout ''1 job(s) submitted to cluster 42.''])"
    by auto
  moreover from submit_outcomes [where sh = scripted and w = "[(3, ''ERROR: no schedd'')]", OF g s2]
  have "fst (submit scripted fresh_job [(3, ''ERROR: no schedd'')]) = Inr None"
    by simp
  moreover from submit_outcomes [where sh = scripted and w = "[(0, ''Submitting job(s)'')]", OF g s3] r3
  have "fst (submit scripted fresh_job [(0, ''Submitting job(s)'')]) = Inl (BadFormatError ''condor_submit'')"
    by simp
  ultimately show ?thesis by simp
qed

section \<open>The queue of the scheduler\<close>

text \<open>
  Claim C5. On a job with the cluster identifier 42, when \<^verbatim>\<open>condor_q\<close> exits with the
  code 1, \<^verbatim>\<open>poll\<close> and \<^verbatim>\<open>status\<close> raise \<^verbatim>\<open>NameError\<close> for the unbound name
  \<^verbatim>\<open>mesg\<close>; neither reaches its \<^verbatim>\<open>raise BadFormatError("condor_q")\<close>.
\<close>

theorem poll_status_nonzero_exit:
  "poll scripted (fresh_job\<lparr>cluster := Some 42\<rparr>) [(1, ''condor_q: error'')]
     = (Inl (NameError ''mesg''), [], [])
   \<and> status scripted id (fresh_job\<lparr>cluster := Some 42\<rparr>) [(1, ''condor_q: error'')]
     = (Inl (NameError ''mesg''), [], [])"
  by (simp add: poll_def status_def checkQueue_def scripted_def lookup_mesg_def)

lemma str_int_42: "str_int 42 = ''42''"
  by code_simp

lemma strip_42: "strip ''42.0'' = ''42.0''"
  by code_simp

lemma contains_42: "contains ''42'' ''42.0''"
  by code_simp

text \<open>
  Claim C7. On a job with the cluster identifier 42, when the first reply of \<^verbatim>\<open>condor_q\<close>
  names the cluster and its exit code is 1, \<^verbatim>\<open>wait\<close> raises \<^verbatim>\<open>NameError\<close> for the
  unbound name \<^verbatim>\<open>mesg\<close>: it neither sleeps nor asks again, although the reply still names
  the cluster.
\<close>

theorem wait_nonzero_exit:
  "wait scripted (fresh_job\<lparr>cluster := Some 42\<rparr>) [(1, ''42.0''), (0, [])]
     = Some (Inl (NameError ''mesg''), [(0, [])], [Stdout ''Waiting for cluster 42 to finish''])"
  by (simp add: wait_def checkQueue_def scripted_def wait_loop.simps lookup_mesg_def
      str_int_42 strip_42 contains_42)


text \<open>
  When every reply that names the cluster comes with the exit code zero and
  \<^verbatim>\<open>maxPollTime\<close> is not negative, \<^verbatim>\<open>wait\<close> does what its loop says. In the scripted
  world, with the replies \<open>bs\<close> naming the cluster
  and the next reply not naming it, it returns after that reply, and it has slept once
  after each reply of \<open>bs\<close>: \<open>min (1 + k / 2) maxPollTime\<close> after the reply number \<open>k\<close>,
  counted from zero.
\<close>

lemma checkQueue_scripted:
  "cluster j = Some c \<Longrightarrow> c \<noteq> 0 \<Longrightarrow> checkQueue scripted j (r # rs) = (Inr r, rs)"
  by (simp add: checkQueue_def scripted_def)

lemma wait_loop_last:
  assumes "\<not> contains (str_int c) (strip msg)"
  shows "wait_loop sh j c t retval msg w ev = Some (Inr (), w, ev @ [Stdout []])"
  using assms by (subst wait_loop.simps) simp

lemma wait_loop_step:
  assumes "cluster j = Some c" and "c \<noteq> 0" and "0 \<le> maxPollTime j" and "0 \<le> t"
    and "contains (str_int c) (strip msg)"
  shows "wait_loop scripted j c t 0 msg (r # rs) ev
    = wait_loop scripted j c (t + 1 / 2) (fst r) (snd r) rs
        (ev @ [Stdout ''.'', Sleep (min t (maxPollTime j))])"
proof -
  from assms(3,4) have "\<not> min t (maxPollTime j) < 0"
    by simp
  then show ?thesis
    using assms(1,2,5) by (subst wait_loop.simps) (simp add: checkQueue_scripted)
qed

lemma schedule_shift:
  "concat (map (\<lambda>k. [Stdout ''.'', Sleep (min (t + of_nat k / 2) m)]) [0..<Suc n])
    = [Stdout ''.'', Sleep (min t m)]
      @ concat (map (\<lambda>k. [Stdout ''.'', Sleep (min (t + 1 / 2 + of_nat k / 2) m)]) [0..<n])"
proof -
  have "[0..<Suc n] = 0 # map Suc [0..<n]"
    by (simp add: upt_conv_Cons map_Suc_upt del: upt_Suc)
  then show ?thesis
    by (simp add: comp_def add_divide_distrib add.assoc del: upt_Suc)
qed

lemma wait_loop_schedule:
  assumes "cluster j = Some c" and "c \<noteq> 0" and "0 \<le> maxPollTime j"
    and "list_all (\<lambda>r. fst r = 0 \<and> contains (str_int c) (strip (snd r))) bs"
    and "\<not> contains (str_int c) (strip (snd r_end))"
    and "contains (str_int c) (strip msg)"
    and "0 \<le> t"
  shows "wait_loop scripted j c t 0 msg (bs @ r_end # rest) ev
    = Some (Inr (), rest,
        ev @ concat (map (\<lambda>k. [Stdout ''.'', Sleep (min (t + of_nat k / 2) (maxPollTime j))])
               [0..<Suc (length bs)])
           @ [Stdout []])"
  using assms(4,6,7)
proof (induction bs arbitrary: t msg ev)
  case Nil
  have "wait_loop scripted j c t 0 msg (r_end # rest) ev
      = wait_loop scripted j c (t + 1 / 2) (fst r_end) (snd r_end) rest
          (ev @ [Stdout ''.'', Sleep (min t (maxPollTime j))])"
    using assms(1,2,3) Nil.prems(3) Nil.prems(2) by (rule wait_loop_step)
  also have "\<dots> = Some (Inr (), rest, (ev @ [Stdout ''.'', Sleep (min t (maxPollTime j))]) @ [Stdout []])"
    using assms(5) by (rule wait_loop_last)
  finally show ?case by simp
next
  case (Cons b bs)
  from Cons.prems(1) have b: "fst b = 0" "contains (str_int c) (strip (snd b))"
    and bs: "list_all (\<lambda>r. fst r = 0 \<and> contains (str_int c) (strip (snd r))) bs"
    by simp_all
  have "wait_loop scripted j c t 0 msg ((b # bs) @ r_end # rest) ev
      = wait_loop scripted j c (t + 1 / 2) (fst b) (snd b) (bs @ r_end # rest)
          (ev @ [Stdout ''.'', Sleep (min t (maxPollTime j))])"
    using wait_loop_step [OF assms(1,2,3) Cons.prems(3) Cons.prems(2), of b "bs @ r_end # rest" ev]
    by simp
  also have "\<dots> = Some (Inr (), rest,
        (ev @ [Stdout ''.'', Sleep (min t (maxPollTime j))])
        @ concat (map (\<lambda>k. [Stdout ''.'', Sleep (min (t + 1 / 2 + of_nat k / 2) (maxPollTime j))])
               [0..<Suc (length bs)])
        @ [Stdout []])"
    using Cons.IH [OF bs b(2), of "t + 1 / 2" "ev @ [Stdout ''.'', Sleep (min t (maxPollTime j))]"]
      b(1) Cons.prems(3)
    by simp
  finally show ?case
    by (simp only: schedule_shift [of t "maxPollTime j" "Suc (length bs)"] length_Cons append_assoc)
qed

lemma contains_nonempty: "sub \<noteq> [] \<Longrightarrow> contains sub s \<Longrightarrow> s \<noteq> []"
  by (cases s) auto

lemma wait_schedule:
  assumes "cluster j = Some c" and "c \<noteq> 0" and "0 \<le> maxPollTime j"
    and "list_all (\<lambda>r. fst r = 0 \<and> contains (str_int c) (strip (snd r))) (b # bs)"
    and "\<not> contains (str_int c) (strip (snd r_end))"
  shows "wait scripted j ((b # bs) @ r_end # rest)
    = Some (Inr (), rest,
        [Stdout (''Waiting for cluster '' @ str_int c @ '' to finish'')]
        @ concat (map (\<lambda>k. [Stdout ''.'', Sleep (min (1 + of_nat k / 2) (maxPollTime j))])
               [0..<length (b # bs)])
        @ [Stdout []])"
proof -
  from assms(4) have b: "fst b = 0" "contains (str_int c) (strip (snd b))"
    and bs: "list_all (\<lambda>r. fst r = 0 \<and> contains (str_int c) (strip (snd r))) bs"
    by simp_all
  have ne: "strip (snd b) \<noteq> []"
    using str_int_nonempty b(2) by (rule contains_nonempty)
  have "wait scripted j ((b # bs) @ r_end # rest)
      = wait_loop scripted j c 1 0 (snd b) (bs @ r_end # rest)
          [Stdout (''Waiting for cluster '' @ str_int c @ '' to finish'')]"
    using assms(1,2) b(1) ne by (simp add: wait_def checkQueue_scripted)
  also have "\<dots> = Some (Inr (), rest,
        [Stdout (''Waiting for cluster '' @ str_int c @ '' to finish'')]
        @ concat (map (\<lambda>k. [Stdout ''.'', Sleep (min (1 + of_nat k / 2) (maxPollTime j))])
               [0..<Suc (length bs)])
        @ [Stdout []])"
    using assms(1,2,3) bs assms(5) b(2) by (rule wait_loop_schedule) simp
  finally show ?thesis by simp
qed


text \<open>
  With a negative \<^verbatim>\<open>maxPollTime\<close> the first sleep is refused: \<^verbatim>\<open>wait\<close> raises
  \<^verbatim>\<open>ValueError\<close> after it has printed the first dot.
\<close>

lemma wait_negative_maxPollTime:
  "wait scripted (fresh_job\<lparr>cluster := Some 42, maxPollTime := - 1\<rparr>) [(0, ''42.0''), (0, [])]
     = Some (Inl ValueError, [(0, [])],
         [Stdout ''Waiting for cluster 42 to finish'', Stdout ''.''])"
  by (simp add: wait_def checkQueue_def scripted_def wait_loop.simps str_int_42 strip_42
      contains_42)

section \<open>Counting the processes of a cluster\<close>

lemma digit_char_not_dot: "d < 10 \<Longrightarrow> digit_char d \<noteq> CHR ''.''"
proof -
  assume "d < 10"
  then have "digit_char d \<in> set ''0123456789''"
    unfolding digit_char_def by (intro nth_mem) simp
  then show ?thesis by auto
qed

lemma dot_notin_str_nat: "CHR ''.'' \<notin> set (str_nat n)"
proof (induction n rule: str_nat.induct)
  case (1 n)
  show ?case
  proof (cases "n < 10")
    case True
    then show ?thesis
      using digit_char_not_dot [of n] by (subst str_nat.simps) auto
  next
    case False
    have "n mod 10 < 10" by simp
    then have "digit_char (n mod 10) \<noteq> CHR ''.''" by (rule digit_char_not_dot)
    with False 1 show ?thesis
      by (subst str_nat.simps) auto
  qed
qed

lemma dot_notin_str_int: "CHR ''.'' \<notin> set (str_int i)"
  by (simp add: str_int_def dot_notin_str_nat)

lemma no_overlap:
  assumes x: "x \<notin> set d" and p: "is_prefix (d @ [x]) s" and k: "0 < k" "k \<le> length d"
  shows "\<not> is_prefix (d @ [x]) (drop k s)"
proof
  assume q: "is_prefix (d @ [x]) (drop k s)"
  from p obtain r where s: "s = d @ x # r"
    using is_prefix_append [of "d @ [x]" s] by auto
  from k have dk: "drop k s = drop k d @ x # r"
    by (simp add: s)
  from q obtain r' where e: "drop k d @ x # r = (d @ [x]) @ r'"
    using is_prefix_append [of "d @ [x]" "drop k s"] dk by auto
  have "(drop k d @ x # r) ! (length d - k) = x"
    using nth_append_length [of "drop k d" x r] by simp
  moreover have "((d @ [x]) @ r') ! (length d - k) = d ! (length d - k)"
  proof -
    from k have "length d - k < length d" by arith
    then show ?thesis by (simp add: nth_append)
  qed
  ultimately have "d ! (length d - k) = x"
    using e by simp
  moreover have "d ! (length d - k) \<in> set d"
  proof (rule nth_mem)
    from k show "length d - k < length d" by arith
  qed
  ultimately show False using x by simp
qed

lemma occurrences_drop_step:
  assumes "j < length s" and "\<not> is_prefix sub (drop j s)"
  shows "occurrences sub (drop j s) = occurrences sub (drop (Suc j) s)"
proof -
  from assms(1) have "drop j s = s ! j # drop (Suc j) s"
    by (simp add: Cons_nth_drop_Suc)
  then show ?thesis
    using assms(2) by (metis add_0 occurrences.simps(2))
qed

lemma occurrences_skip:
  assumes free: "\<And>k. j \<le> k \<Longrightarrow> k < n \<Longrightarrow> \<not> is_prefix sub (drop k s)"
    and n: "n \<le> length s" and j: "j \<le> n"
  shows "occurrences sub (drop j s) = occurrences sub (drop n s)"
  using j free
proof (induction "n - j" arbitrary: j)
  case 0
  then show ?case by simp
next
  case (Suc m)
  then have lt: "j < n" by simp
  with n have "j < length s" by simp
  moreover have "\<not> is_prefix sub (drop j s)"
    using Suc.prems(2) [of j] lt by simp
  ultimately have "occurrences sub (drop j s) = occurrences sub (drop (Suc j) s)"
    by (rule occurrences_drop_step)
  also have "\<dots> = occurrences sub (drop n s)"
  proof (rule Suc.hyps(1))
    show "m = n - Suc j" using Suc.hyps(2) by simp
    show "Suc j \<le> n" using lt by simp
    show "\<And>k. Suc j \<le> k \<Longrightarrow> k < n \<Longrightarrow> \<not> is_prefix sub (drop k s)"
      using Suc.prems(2) by simp
  qed
  finally show ?case .
qed

lemma py_count_occurrences:
  assumes x: "x \<notin> set d"
  shows "py_count (d @ [x]) s = occurrences (d @ [x]) s"
proof (induction s rule: length_induct)
  case (1 s)
  let ?sub = "d @ [x]"
  show ?case
  proof (cases s)
    case Nil
    then show ?thesis by (subst py_count.simps) simp
  next
    case (Cons c cs)
    show ?thesis
    proof (cases "is_prefix ?sub s")
      case True
      then obtain r where s: "s = ?sub @ r"
        using is_prefix_append by blast
      have len: "length ?sub \<le> length s" using s by simp
      have shorter: "length (drop (length ?sub) s) < length s"
        using Cons by simp
      have "py_count ?sub s = Suc (py_count ?sub (drop (length ?sub) s))"
        using True Cons by (subst py_count.simps) simp
      also have "\<dots> = Suc (occurrences ?sub (drop (length ?sub) s))"
        using 1 shorter by simp
      also have "occurrences ?sub (drop (length ?sub) s) = occurrences ?sub (drop 1 s)"
      proof (rule occurrences_skip [symmetric])
        fix k
        assume "1 \<le> k" and "k < length ?sub"
        then have "0 < k" "k \<le> length d" by simp_all
        with x True show "\<not> is_prefix ?sub (drop k s)" by (rule no_overlap)
      next
        show "length ?sub \<le> length s" by (rule len)
        show "1 \<le> length ?sub" by simp
      qed
      also have "Suc (occurrences ?sub (drop 1 s)) = occurrences ?sub s"
        using True Cons by simp
      finally show ?thesis .
    next
      case False
      have "py_count ?sub s = py_count ?sub (tl s)"
        using False Cons by (subst py_count.simps) simp
      also have "\<dots> = occurrences ?sub (tl s)"
        using 1 Cons by simp
      also have "\<dots> = occurrences ?sub s"
        using False Cons by simp
      finally show ?thesis .
    qed
  qed
qed

lemma py_count_cluster: "py_count (str_int c @ ''.'') msg = occurrences (str_int c @ ''.'') msg"
  using py_count_occurrences [OF dot_notin_str_int, of c msg] by simp


lemma submit_example:
  assumes "re_search_cluster msg = Some ds" and "py_int ds = Inr c" and "isdigit ds"
  shows "submit scripted fresh_job [(0, msg)]
    = (Inr (Some c), (snd (generateSubmitString True fresh_job))\<lparr>cluster := Some c\<rparr>, [],
       [Stdout msg])"
  using assms by (simp add: submit_def scripted_def split: prod.splits)

lemma submit_example_0:
  "submit scripted fresh_job [(0, ''1 job(s) submitted to cluster 0.'')]
    = (Inr (Some 0), (snd (generateSubmitString True fresh_job))\<lparr>cluster := Some 0\<rparr>, [],
       [Stdout ''1 job(s) submitted to cluster 0.''])"
proof (rule submit_example)
  show "re_search_cluster ''1 job(s) submitted to cluster 0.'' = Some ''0''" by code_simp
  show "py_int ''0'' = Inr 0" by code_simp
  show "isdigit ''0''" by code_simp
qed

lemma submit_example_42:
  "submit scripted fresh_job [(0, ''1 job(s) submitted to cluster 42.'')]
    = (Inr (Some 42), (snd (generateSubmitString True fresh_job))\<lparr>cluster := Some 42\<rparr>, [],
       [Stdout ''1 job(s) submitted to cluster 42.''])"
proof (rule submit_example)
  show "re_search_cluster ''1 job(s) submitted to cluster 42.'' = Some ''42''" by code_simp
  show "py_int ''42'' = Inr 42" by code_simp
  show "isdigit ''42''" by code_simp
qed

lemma cluster_flush: "cluster (snd (generateSubmitString u j)) = cluster j"
  by (simp add: generateSubmitString_def Let_def)

text \<open>
  What \<^verbatim>\<open>poll\<close> does where it tests the cluster identifier as it means to. On a job
  without a cluster identifier it raises \<^verbatim>\<open>SubmissionError\<close>. On a job whose cluster
  identifier is \<open>c\<close>, with \<open>c\<close> not zero, when \<^verbatim>\<open>condor_q\<close> exits with the code zero,
  it returns the number of places of the reply where the decimal text of \<open>c\<close> followed by
  a full stop starts.
\<close>

lemma poll_counts_occurrences:
  "(cluster j = None \<longrightarrow> poll sh j w = (Inl (SubmissionError ''poll()''), w, []))
   \<and> (cluster j = Some c \<and> c \<noteq> 0
        \<and> sh w (''condor_q '' @ str_int c @ condor_q_format) None = ((0, msg), w1)
      \<longrightarrow> poll sh j w = (Inr (occurrences (str_int c @ ''.'') msg), w1, []))"
  by (simp add: poll_def checkQueue_def py_count_cluster)

lemma poll_counts_occurrences_example:
  "poll scripted new_job [] = (Inl (SubmissionError ''poll()''), [], [])
   \<and> poll scripted (fst (snd (submit scripted fresh_job [(0, ''1 job(s) submitted to cluster 42.'')])))
       [(0, ''42.0 42.1 142.0'')]
     = (Inr 3, [], [])"
proof -
  let ?j = "fst (snd (submit scripted fresh_job [(0, ''1 job(s) submitted to cluster 42.'')]))"
  have c: "cluster ?j = Some 42"
    by (simp add: submit_example_42)
  have s: "scripted [(0, ''42.0 42.1 142.0'')] (''condor_q '' @ str_int 42 @ condor_q_format) None
      = ((0, ''42.0 42.1 142.0''), [])"
    by (simp add: scripted_def)
  have n: "cluster new_job = None"
    by (simp add: new_job_def)
  have o: "occurrences (str_int 42 @ ''.'') ''42.0 42.1 142.0'' = 3"
    by code_simp
  from poll_counts_occurrences [where j = new_job and sh = scripted and w = "[]"] n
  have "poll scripted new_job [] = (Inl (SubmissionError ''poll()''), [], [])"
    by blast
  moreover from poll_counts_occurrences [where j = ?j and sh = scripted and c = 42
      and w = "[(0, ''42.0 42.1 142.0'')]" and msg = "''42.0 42.1 142.0''" and ?w1.0 = "[]"] c s
  have "poll scripted ?j [(0, ''42.0 42.1 142.0'')]
      = (Inr (occurrences (str_int 42 @ ''.'') ''42.0 42.1 142.0''), [], [])"
    by simp
  ultimately show ?thesis
    by (simp only: o)
qed

text \<open>
  Claim C3. After a \<^verbatim>\<open>submit\<close> whose reply names the cluster 0, the job has the cluster
  identifier 0. \<^verbatim>\<open>poll\<close> on it passes its own test \<^verbatim>\<open>self.cluster is None\<close>, but
  \<^verbatim>\<open>_checkQueue\<close> tests \<^verbatim>\<open>if self.cluster:\<close> and raises \<^verbatim>\<open>SubmissionError\<close>: the
  scheduler is not asked, and no count is returned, although the reply that waits holds
  one occurrence of \<^verbatim>\<open>0.\<close>. \<^verbatim>\<open>status\<close> on the same job tests \<^verbatim>\<open>is None\<close> only and
  answers.
\<close>

theorem poll_cluster_zero:
  "cluster (fst (snd (submit scripted fresh_job [(0, ''1 job(s) submitted to cluster 0.'')]))) = Some 0
   \<and> poll scripted (fst (snd (submit scripted fresh_job [(0, ''1 job(s) submitted to cluster 0.'')])))
       [(0, ''0.0'')]
     = (Inl (SubmissionError ''_checkQueue()''), [(0, ''0.0'')], [])
   \<and> occurrences (str_int 0 @ ''.'') ''0.0'' = 1
   \<and> status scripted id
       (fst (snd (submit scripted fresh_job [(0, ''1 job(s) submitted to cluster 0.'')])))
       [(0, ''0.0'')]
     = (Inr ''0.0'', [], [])"
proof -
  have "occurrences (str_int 0 @ ''.'') ''0.0'' = 1" by code_simp
  then show ?thesis
    by (simp add: submit_example_0 poll_def status_def checkQueue_def scripted_def)
qed


section \<open>Enqueueing a command line\<close>

lemma quote_run_odd_True: "cs = [] \<or> hd cs \<noteq> dquote \<Longrightarrow> quote_run_odd True cs"
  by (cases cs) auto

lemma replace_pairs_Nil: "replace [dquote, dquote] [] [] = []"
  by (subst replace.simps) simp

lemma replace_pairs_pair:
  "replace [dquote, dquote] [] (dquote # dquote # r) = replace [dquote, dquote] [] r"
  by (subst replace.simps) simp

lemma replace_pairs_other:
  "\<not> is_prefix [dquote, dquote] (c # cs) \<Longrightarrow>
     replace [dquote, dquote] [] (c # cs) = c # replace [dquote, dquote] [] cs"
  by (subst replace.simps) auto

lemma quote_check_unpaired:
  "(dquote \<in> set (replace [dquote, dquote] [] s)) = unpaired_dquote s"
  unfolding unpaired_dquote_def
proof (induction s rule: length_induct)
  case (1 s)
  show ?case
  proof (cases s)
    case Nil
    then show ?thesis by (simp add: replace_pairs_Nil)
  next
    case (Cons c cs)
    show ?thesis
    proof (cases "is_prefix [dquote, dquote] (c # cs)")
      case True
      then obtain r where r: "c # cs = dquote # dquote # r"
        using is_prefix_append [of "[dquote, dquote]" "c # cs"] by auto
      have "(dquote \<in> set (replace [dquote, dquote] [] r)) = quote_run_odd False r"
        using 1 Cons r by simp
      then show ?thesis
        using Cons r by (simp add: replace_pairs_pair)
    next
      case False
      have ih: "(dquote \<in> set (replace [dquote, dquote] [] cs)) = quote_run_odd False cs"
        using 1 Cons by simp
      show ?thesis
      proof (cases "c = dquote")
        case True
        with False have "cs = [] \<or> hd cs \<noteq> dquote"
          by (cases cs) auto
        then have "quote_run_odd True cs" by (rule quote_run_odd_True)
        with True Cons False show ?thesis
          by (simp add: replace_pairs_other)
      next
        case c: False
        with Cons False ih show ?thesis
          by (simp add: replace_pairs_other)
      qed
    qed
  qed
qed

lemma resolveExecutable_error:
  "fst (resolveExecutable sh x j w) = Inl e \<Longrightarrow> e = RequiredSetting ''Executable''"
  by (auto simp: resolveExecutable_def getExecutable_def get_setting_def Let_def
      split: prod.splits if_splits option.splits)

lemma setExecutable_error:
  "fst (setExecutable sh x j w) = Inl e \<Longrightarrow> e = RequiredSetting ''Executable''"
proof -
  assume a: "fst (setExecutable sh x j w) = Inl e"
  obtain r w1 ev where r: "resolveExecutable sh x j w = (r, w1, ev)"
    by (cases "resolveExecutable sh x j w") auto
  show ?thesis
  proof (cases r)
    case (Inl e')
    with a r have "e = e'" by (simp add: setExecutable_def)
    moreover from r Inl have "e' = RequiredSetting ''Executable''"
      using resolveExecutable_error [of sh x j w e'] by simp
    ultimately show ?thesis by simp
  next
    case (Inr p)
    with a r show ?thesis
      by (simp add: setExecutable_def Let_def split: if_splits)
  qed
qed

lemma pop_loop_error: "pop_loop ex args = Inl e \<Longrightarrow> e = IndexError"
  by (induction ex args rule: pop_loop.induct) (auto split: if_splits)

lemma queue_other_errors:
  assumes "dquote \<notin> set (replace [dquote, dquote] [] (strip cmd))"
  shows "fst (queue sh sp cmd n j w) \<noteq> Inl (BadQuotes q)"
proof
  assume a: "fst (queue sh sp cmd n j w) = Inl (BadQuotes q)"
  show False
  proof (cases "sp (strip cmd)")
    case None
    with a assms show False by (simp add: queue_def)
  next
    case (Some ws)
    show False
    proof (cases ws)
      case Nil
      with a assms Some show False by (simp add: queue_def)
    next
      case (Cons e0 rest)
      obtain r j1 w1 ev where s: "setExecutable sh e0 j w = (r, j1, w1, ev)"
        by (cases "setExecutable sh e0 j w") auto
      show False
      proof (cases r)
        case (Inl e)
        with s have "e = RequiredSetting ''Executable''"
          using setExecutable_error [of sh e0 j w e] by simp
        with a assms Some Cons s Inl show False by (simp add: queue_def)
      next
        case (Inr u)
        show False
        proof (cases "pop_loop (hd (split_space (strip cmd))) (tl (split_space (strip cmd)))")
          case (Inl e)
          then have "e = IndexError" by (rule pop_loop_error)
          with a assms Some Cons s Inr Inl show False by (simp add: queue_def)
        next
          case r2: (Inr p)
          with a assms Some Cons s Inr show False
            by (simp add: queue_def Let_def split: prod.splits)
        qed
      qed
    qed
  qed
qed

text \<open>
  Claim C4, as the code has it. \<^verbatim>\<open>queue\<close> raises \<^verbatim>\<open>BadQuotes\<close> exactly when the command
  line, without the white space around it, has a double quote that is not paired, that is,
  a run of consecutive double quotes of odd length; it then leaves the job as it was.
  A backslash before the double quote or single quotes around it change nothing. A
  command line whose double quotes all stand in pairs passes the check.
\<close>

theorem queue_BadQuotes_iff_unpaired:
  "(fst (queue sh sp cmd n j w) = Inl (BadQuotes [dquote])) = unpaired_dquote (strip cmd)
   \<and> (unpaired_dquote (strip cmd) \<longrightarrow>
        queue sh sp cmd n j w = (Inl (BadQuotes [dquote]), j, w, []))"
proof (cases "unpaired_dquote (strip cmd)")
  case True
  then have "dquote \<in> set (replace [dquote, dquote] [] (strip cmd))"
    by (simp add: quote_check_unpaired)
  then have "queue sh sp cmd n j w = (Inl (BadQuotes [dquote]), j, w, [])"
    by (simp add: queue_def)
  with True show ?thesis by simp
next
  case False
  then have "dquote \<notin> set (replace [dquote, dquote] [] (strip cmd))"
    by (simp add: quote_check_unpaired)
  then have "fst (queue sh sp cmd n j w) \<noteq> Inl (BadQuotes [dquote])"
    by (rule queue_other_errors)
  with False show ?thesis by simp
qed

theorem queue_BadQuotes_iff_unpaired_witness:
  "queue scripted plain_split (''echo '' @ [dquote] @ ''a'' @ [dquote]) 1 fresh_job []
     = (Inl (BadQuotes [dquote]), fresh_job, [], [])
   \<and> \<not> unpaired_dquote (strip (''echo a'' @ [dquote, dquote] @ ''b''))
   \<and> fst (queue scripted plain_split (''echo a'' @ [dquote, dquote] @ ''b'') 1 fresh_job
           [(0, ''echo'')])
     = Inr ()"
proof -
  have u: "unpaired_dquote (strip (''echo '' @ [dquote] @ ''a'' @ [dquote]))"
    by code_simp
  have "queue scripted plain_split (''echo '' @ [dquote] @ ''a'' @ [dquote]) 1 fresh_job []
     = (Inl (BadQuotes [dquote]), fresh_job, [], [])"
    using queue_BadQuotes_iff_unpaired [where sh = scripted and sp = plain_split
        and cmd = "''echo '' @ [dquote] @ ''a'' @ [dquote]" and n = 1 and j = fresh_job
        and w = "[]"] u
    by blast
  moreover have "\<not> unpaired_dquote (strip (''echo a'' @ [dquote, dquote] @ ''b''))"
    by code_simp
  moreover have "fst (queue scripted plain_split (''echo a'' @ [dquote, dquote] @ ''b'') 1
      fresh_job [(0, ''echo'')]) = Inr ()"
    by code_simp
  ultimately show ?thesis by blast
qed

text \<open>
  Claim C4 as it is stated fails. The command line \<^verbatim>\<open>echo 'a"b'\<close>, which is what the Python literal
  \<^verbatim>\<open>"echo 'a\"b'"\<close> denotes, is refused with \<^verbatim>\<open>BadQuotes\<close>, and so is the command
  line that holds the backslash itself, \<^verbatim>\<open>echo 'a\"b'\<close>.
\<close>

theorem queue_refuses_single_quoted_dquote:
  "queue scripted plain_split (''echo '' @ [squote] @ ''a'' @ [dquote] @ ''b'' @ [squote]) 1
       fresh_job [(0, ''echo'')]
     = (Inl (BadQuotes [dquote]), fresh_job, [(0, ''echo'')], [])
   \<and> queue scripted plain_split
       (''echo '' @ [squote] @ ''a'' @ [backslash, dquote] @ ''b'' @ [squote]) 1
       fresh_job [(0, ''echo'')]
     = (Inl (BadQuotes [dquote]), fresh_job, [(0, ''echo'')], [])"
proof -
  have a: "dquote \<in> set (replace [dquote, dquote] []
      (strip (''echo '' @ [squote] @ ''a'' @ [dquote] @ ''b'' @ [squote])))"
    by code_simp
  have b: "dquote \<in> set (replace [dquote, dquote] []
      (strip (''echo '' @ [squote] @ ''a'' @ [backslash, dquote] @ ''b'' @ [squote])))"
    by code_simp
  show ?thesis
    by (simp only: queue_def Let_def a b if_True simp_thms)
qed


section \<open>The cluster identifier over the life of a job\<close>

lemma cluster_put_setting: "cluster (put_setting k v j) = cluster j"
  by (simp add: put_setting_def)

lemma cluster_setUniverse: "cluster (snd (setUniverse x j)) = cluster j"
  by (simp add: setUniverse_def cluster_put_setting)

lemma cluster_setTransferExecutable: "cluster (snd (setTransferExecutable x j)) = cluster j"
  by (cases x) (simp_all add: setTransferExecutable_def cluster_put_setting)

lemma cluster_setExecutable: "cluster (fst (snd (setExecutable sh x j w))) = cluster j"
proof -
  obtain r w1 ev where r: "resolveExecutable sh x j w = (r, w1, ev)"
    by (cases "resolveExecutable sh x j w") auto
  show ?thesis
  proof (cases r)
    case (Inl e)
    with r show ?thesis by (simp add: setExecutable_def)
  next
    case (Inr p)
    with r show ?thesis
      by (simp add: setExecutable_def Let_def cluster_put_setting cluster_setTransferExecutable)
  qed
qed

lemma cluster_setEmail: "cluster (fst (snd (setEmail sh un x j w))) = cluster j"
  by (simp add: setEmail_def Let_def cluster_put_setting
      split: prod.splits sum.splits option.splits)

lemma cluster_queue: "cluster (fst (snd (queue sh sp c n j w))) = cluster j"
proof -
  have se: "\<And>e0 r j1 w1 ev. setExecutable sh e0 j w = (r, j1, w1, ev) \<Longrightarrow> cluster j1 = cluster j"
    using cluster_setExecutable [of sh _ j w] by (metis fst_conv snd_conv)
  show ?thesis
    by (auto simp: queue_def Let_def setArguments_def cluster_put_setting cluster_flush
        split: option.splits list.splits prod.splits sum.splits dest: se)
qed

lemma cluster_submit:
  "cluster (fst (snd (submit sh j w)))
     = (case fst (submit sh j w) of Inr (Some c) \<Rightarrow> Some c | _ \<Rightarrow> cluster j)"
proof -
  have "cluster (snd (generateSubmitString True j)) = cluster j"
    by (rule cluster_flush)
  then show ?thesis
    by (auto simp: submit_def Let_def split: prod.splits option.splits sum.splits)
qed

lemma run_op_cluster:
  assumes "x \<noteq> Submit" and "run_op sh sp un x (j, w) = Some (j', w')"
  shows "cluster j' = cluster j"
proof (cases x)
  case (SetExecutable e)
  with assms(2) show ?thesis
    using cluster_setExecutable [of sh e j w] by (auto split: prod.splits)
next
  case (SetEmail e)
  with assms(2) show ?thesis
    using cluster_setEmail [of sh un e j w] by (auto split: prod.splits)
next
  case (Queue c n)
  with assms(2) show ?thesis
    using cluster_queue [of sh sp c n j w] by (auto split: prod.splits)
next
  case Submit
  with assms(1) show ?thesis by simp
next
  case Wait
  with assms(2) show ?thesis by (auto split: option.splits)
next
  case Poll
  with assms(2) show ?thesis by (auto split: prod.splits)
next
  case Status
  with assms(2) show ?thesis by (auto split: prod.splits)
next
  case (SetMatlabLock b)
  with assms(2) show ?thesis by (auto simp: setMatlabLock_def cluster_put_setting)
qed (use assms(2) in \<open>auto simp: cluster_setUniverse cluster_setTransferExecutable
    cluster_put_setting setArguments_def setInitialDirectory_def setInput_def setOutput_def
    setError_def setLog_def setRequirements_def setCPUNum_def setRAM_def setDiskSpace_def
    setTransferFiles_def setWhenTransferOutput_def setNotification_def setUsername_def
    setServer_def\<close>)

lemma run_ops_cluster:
  "Submit \<notin> set ops \<Longrightarrow> run_ops sh sp un ops (j, w) = Some (j', w') \<Longrightarrow> cluster j' = cluster j"
proof (induction ops arbitrary: j w)
  case Nil
  then show ?case by simp
next
  case (Cons x xs)
  from Cons.prems(2) obtain j1 w1 where
    s: "run_op sh sp un x (j, w) = Some (j1, w1)" and r: "run_ops sh sp un xs (j1, w1) = Some (j', w')"
    by (auto split: option.splits)
  from Cons.prems(1) have "x \<noteq> Submit" by auto
  then have "cluster j1 = cluster j" using s by (rule run_op_cluster)
  moreover from Cons.prems(1) have "Submit \<notin> set xs" by simp
  then have "cluster j' = cluster j1" using r by (rule Cons.IH)
  ultimately show ?case by simp
qed

text \<open>
  Claim C9, as the code has it. No method other than \<^verbatim>\<open>submit\<close> changes the cluster
  identifier: after any sequence of calls without a \<^verbatim>\<open>submit\<close> it is what it was, whether
  the calls return or raise. A \<^verbatim>\<open>submit\<close> that does not return a cluster number (it
  returns \<^verbatim>\<open>None\<close> or raises) leaves it too. A \<^verbatim>\<open>submit\<close> that returns the cluster number
  \<open>c\<close> makes \<open>c\<close> the cluster identifier, also on a job that had one.
\<close>

theorem cluster_changes_only_by_submit:
  "(Submit \<notin> set ops \<and> run_ops sh sp un ops (j, w) = Some (j', w') \<longrightarrow> cluster j' = cluster j)
   \<and> ((\<forall>c. fst (submit sh j w) \<noteq> Inr (Some c)) \<longrightarrow> cluster (fst (snd (submit sh j w))) = cluster j)
   \<and> (fst (submit sh j w) = Inr (Some c) \<longrightarrow> cluster (fst (snd (submit sh j w))) = Some c)"
proof -
  have a: "Submit \<notin> set ops \<and> run_ops sh sp un ops (j, w) = Some (j', w') \<longrightarrow> cluster j' = cluster j"
    using run_ops_cluster [of ops sh sp un j w j' w'] by simp
  have b: "(\<forall>c. fst (submit sh j w) \<noteq> Inr (Some c)) \<longrightarrow> cluster (fst (snd (submit sh j w))) = cluster j"
    by (auto simp: cluster_submit split: sum.splits option.splits)
  have c: "fst (submit sh j w) = Inr (Some c) \<longrightarrow> cluster (fst (snd (submit sh j w))) = Some c"
    by (simp add: cluster_submit)
  from a b c show ?thesis by blast
qed

theorem cluster_changes_only_by_submit_witness:
  "map_option (\<lambda>s. cluster (fst s))
     (run_ops scripted plain_split mail_map
        [SetOutput (PyStr ''out.txt''), Queue ''echo hi'' 1, Poll, Status, Wait, SetEmail PyNone,
         SetUniverse (PyStr ''moon'')]
        (fst (snd (submit scripted fresh_job [(0, ''1 job(s) submitted to cluster 42.'')])),
         [(0, ''echo''), (0, ''42.0''), (0, ''table''), (0, ''42.0''), (0, []), (1, [])]))
     = Some (Some 42)
   \<and> cluster (fst (snd (submit scripted
        (fst (snd (submit scripted fresh_job [(0, ''1 job(s) submitted to cluster 42.'')])))
        [(2, ''ERROR: no schedd'')])))
     = Some 42"
proof -
  let ?J = "fst (snd (submit scripted fresh_job [(0, ''1 job(s) submitted to cluster 42.'')]))"
  let ?ops = "[SetOutput (PyStr ''out.txt''), Queue ''echo hi'' 1, Poll, Status, Wait,
    SetEmail PyNone, SetUniverse (PyStr ''moon'')]"
  let ?S = "[(0, ''echo''), (0, ''42.0''), (0, ''table''), (0, ''42.0''), (0, []), (1, [])]"
  have cJ: "cluster ?J = Some 42"
    by (simp add: submit_example_42)
  have "run_ops scripted plain_split mail_map ?ops (?J, ?S) \<noteq> None"
    by code_simp
  then obtain j' w' where r: "run_ops scripted plain_split mail_map ?ops (?J, ?S) = Some (j', w')"
    by (cases "run_ops scripted plain_split mail_map ?ops (?J, ?S)") auto
  have n: "Submit \<notin> set ?ops"
    by simp
  have "cluster j' = cluster ?J"
    using cluster_changes_only_by_submit [where ops = ?ops and sh = scripted and sp = plain_split
        and un = mail_map and j = ?J and w = ?S and j' = j' and w' = w'] n r
    by blast
  with cJ r have first: "map_option (\<lambda>s. cluster (fst s))
      (run_ops scripted plain_split mail_map ?ops (?J, ?S)) = Some (Some 42)"
    by simp
  have f: "fst (submit scripted ?J [(2, ''ERROR: no schedd'')]) = Inr None"
    by (simp add: submit_def scripted_def split: prod.splits)
  have "cluster (fst (snd (submit scripted ?J [(2, ''ERROR: no schedd'')]))) = cluster ?J"
    using cluster_changes_only_by_submit [where sh = scripted and j = ?J
        and w = "[(2, ''ERROR: no schedd'')]"] f
    by simp
  with cJ first show ?thesis by simp
qed

text \<open>
  Claim C9 as it is stated fails. A second \<^verbatim>\<open>submit\<close> that succeeds gives the job another cluster identifier: 42 after
  the first reply, 43 after the second.
\<close>

theorem second_submit_changes_cluster:
  "map_option (\<lambda>s. cluster (fst s))
     (run_ops scripted plain_split mail_map [Submit]
        (fresh_job, [(0, ''1 job(s) submitted to cluster 42.''),
                     (0, ''1 job(s) submitted to cluster 43.'')]))
     = Some (Some 42)
   \<and> map_option (\<lambda>s. cluster (fst s))
     (run_ops scripted plain_split mail_map [Submit, Submit]
        (fresh_job, [(0, ''1 job(s) submitted to cluster 42.''),
                     (0, ''1 job(s) submitted to cluster 43.'')]))
     = Some (Some 43)"
  by code_simp

end
